theory Spec2Isabelle
  imports Complex_Main
begin

section \<open>Numbers\<close>

text \<open>
  The warpers compute with numpy floating-point arrays. The definitions below are
  polymorphic in the number type: they use only \<open>+\<close>, \<open>-\<close>, \<open>*\<close>, \<open>max\<close>, numerals
  and a logarithm that is handed in as a function (numpy's \<open>np.log\<close>). Two number types
  are used:
  \<^item> \<open>real\<close>: exact arithmetic, the idealisation in which the numerical claims are
    read (rounding to float32/float64 is not modelled);
  \<^item> \<open>fl\<close>: the reals extended by the IEEE special values \<open>+inf\<close>, \<open>-inf\<close> and \<open>nan\<close>,
    exact on finite values, with the IEEE rules for the special values (signed
    zeros and overflow are not modelled). It is there to follow non-finite values
    through the code.
\<close>

datatype fl = Fin real | PInf | NInf | NaN

fun fl_add :: "fl \<Rightarrow> fl \<Rightarrow> fl" where
  "fl_add (Fin a) (Fin b) = Fin (a + b)"
| "fl_add NaN _ = NaN"
| "fl_add _ NaN = NaN"
| "fl_add PInf NInf = NaN"
| "fl_add NInf PInf = NaN"
| "fl_add PInf _ = PInf"
| "fl_add _ PInf = PInf"
| "fl_add NInf _ = NInf"
| "fl_add _ NInf = NInf"

fun fl_neg :: "fl \<Rightarrow> fl" where
  "fl_neg (Fin a) = Fin (- a)"
| "fl_neg PInf = NInf"
| "fl_neg NInf = PInf"
| "fl_neg NaN = NaN"

fun fl_mul :: "fl \<Rightarrow> fl \<Rightarrow> fl" where
  "fl_mul (Fin a) (Fin b) = Fin (a * b)"
| "fl_mul NaN _ = NaN"
| "fl_mul _ NaN = NaN"
| "fl_mul PInf (Fin b) = (if b = 0 then NaN else if 0 < b then PInf else NInf)"
| "fl_mul NInf (Fin b) = (if b = 0 then NaN else if 0 < b then NInf else PInf)"
| "fl_mul (Fin a) PInf = (if a = 0 then NaN else if 0 < a then PInf else NInf)"
| "fl_mul (Fin a) NInf = (if a = 0 then NaN else if 0 < a then NInf else PInf)"
| "fl_mul PInf PInf = PInf"
| "fl_mul NInf NInf = PInf"
| "fl_mul PInf NInf = NInf"
| "fl_mul NInf PInf = NInf"

fun fl_inv :: "fl \<Rightarrow> fl" where
  "fl_inv (Fin a) = (if a = 0 then PInf else Fin (1 / a))"
| "fl_inv PInf = Fin 0"
| "fl_inv NInf = Fin 0"
| "fl_inv NaN = NaN"

fun fl_le :: "fl \<Rightarrow> fl \<Rightarrow> bool" where
  "fl_le (Fin a) (Fin b) = (a \<le> b)"
| "fl_le NaN _ = False"
| "fl_le _ NaN = False"
| "fl_le NInf _ = True"
| "fl_le _ PInf = True"
| "fl_le PInf _ = False"
| "fl_le _ NInf = False"

fun fl_log :: "fl \<Rightarrow> fl" where
  "fl_log (Fin a) = (if 0 < a then Fin (ln a) else if a = 0 then NInf else NaN)"
| "fl_log PInf = PInf"
| "fl_log NInf = NaN"
| "fl_log NaN = NaN"

fun is_finite :: "fl \<Rightarrow> bool" where
  "is_finite (Fin a) = True"
| "is_finite _ = False"

instantiation fl :: "{monoid_add,one,minus,times,inverse,ord}"
begin

definition zero_fl_def: "0 = Fin 0"
definition one_fl_def: "1 = Fin 1"
definition plus_fl_def: "a + b = fl_add a b"
definition minus_fl_def: "a - b = fl_add a (fl_neg b)"
definition times_fl_def: "a * b = fl_mul a b"
definition inverse_fl_def: "inverse a = fl_inv a"
definition divide_fl_def: "a div b = fl_mul a (fl_inv b)"
definition less_eq_fl_def: "a \<le> b = fl_le a b"
definition less_fl_def: "a < b = (fl_le a b \<and> \<not> fl_le b a)"

instance
proof
  fix a b c :: fl
  show "a + b + c = a + (b + c)"
    unfolding plus_fl_def by (cases a; cases b; cases c) simp_all
  show "0 + a = a"
    unfolding plus_fl_def zero_fl_def by (cases a) simp_all
  show "a + 0 = a"
    unfolding plus_fl_def zero_fl_def by (cases a) simp_all
qed

end

instance fl :: numeral ..

section \<open>The libraries the warpers call\<close>

text \<open>
  numpy and OpenCV are not part of the repository. Every routine of theirs that the
  warpers call is a field of the record \<open>lib\<close>; a routine that can raise returns a sum,
  \<open>Inl\<close> the exception. \<open>'a\<close> is the number type, \<open>'img\<close> the type of images.
\<close>

datatype exn = ValueError | LinAlgError | CvError

datatype interpolation = INTER_NEAREST | INTER_LINEAR | INTER_CUBIC

datatype estimation_method = LEAST_SQUARES | RANSAC | LMEDS | RHO

type_synonym 'a point = "'a \<times> 'a"

type_synonym 'a matrix = "'a list list"

record ('a, 'img) lib =
  np_log :: "'a \<Rightarrow> 'a"
  np_linalg_solve :: "'a matrix \<Rightarrow> 'a point list \<Rightarrow> exn + 'a point list"
  cv_remap :: "'img \<Rightarrow> 'a matrix \<Rightarrow> 'a matrix \<Rightarrow> interpolation \<Rightarrow> exn + 'img"
  cv_findHomography ::
    "'a point list \<Rightarrow> 'a point list \<Rightarrow> estimation_method \<Rightarrow> 'a \<Rightarrow> exn + 'a matrix option"
  cv_warpPerspective :: "'img \<Rightarrow> 'a matrix \<Rightarrow> nat \<times> nat \<Rightarrow> interpolation \<Rightarrow> exn + 'img"
  img_shape :: "'img \<Rightarrow> nat \<times> nat"

section \<open>TPSWarper.warp: assembling the linear system\<close>

text \<open>
  An \<open>N x 2\<close> array (\<open>src_pts\<close>, \<open>dst_pts\<close>, \<open>V\<close>, \<open>weights\<close>) is a list of pairs,
  one pair per row; a general 2-D array is a list of rows.
\<close>

text \<open>\<open>np.sum(diff**2, axis=-1)\<close> for one pair of points.\<close>

definition dist_sq :: "'a::{plus,minus,times} point \<Rightarrow> 'a point \<Rightarrow> 'a" where
  "dist_sq p q = (fst p - fst q) * (fst p - fst q) + (snd p - snd q) * (snd p - snd q)"

text \<open>
  \<open>d = np.maximum(d_sq, 1e-10); 0.5 * d * np.log(d)\<close>: lines 50-51 for \<open>K\<close> and
  lines 130-133 for the dense map.
\<close>

definition tps_U :: "('a \<Rightarrow> 'a) \<Rightarrow> 'a::{numeral,times,inverse,ord} \<Rightarrow> 'a" where
  "tps_U lg d_sq = (let d = max d_sq (1 / 10000000000) in 1 / 2 * d * lg d)"

definition tps_K ::
  "('a \<Rightarrow> 'a) \<Rightarrow> 'a::{numeral,minus,times,inverse,ord} point list \<Rightarrow> 'a matrix" where
  "tps_K lg dst_pts = map (\<lambda>p. map (\<lambda>q. tps_U lg (dist_sq p q)) dst_pts) dst_pts"

text \<open>\<open>P = np.column_stack((np.ones(N), dst_pts))\<close>.\<close>

definition tps_P :: "'a::one point list \<Rightarrow> 'a matrix" where
  "tps_P dst_pts = map (\<lambda>p. [1, fst p, snd p]) dst_pts"

definition np_zeros :: "nat \<Rightarrow> nat \<Rightarrow> 'a::zero matrix" where
  "np_zeros r c = replicate r (replicate c 0)"

definition np_eye :: "nat \<Rightarrow> 'a::{zero,one} matrix" where
  "np_eye n = map (\<lambda>i. map (\<lambda>j. if i = j then 1 else 0) [0..<n]) [0..<n]"

text \<open>The transpose of an array with \<open>c\<close> columns (\<open>P.T\<close>, with \<open>c = 3\<close>).\<close>

definition np_T :: "nat \<Rightarrow> 'a matrix \<Rightarrow> 'a matrix" where
  "np_T c M = map (\<lambda>j. map (\<lambda>row. row ! j) M) [0..<c]"

text \<open>
  The slice assignment \<open>M[r:r+h, c:c+w] = B\<close> for a block \<open>B\<close> of shape \<open>(h, w)\<close>; the
  code only assigns blocks that fit.
\<close>

definition set_block :: "nat \<Rightarrow> nat \<Rightarrow> 'a matrix \<Rightarrow> 'a matrix \<Rightarrow> 'a matrix" where
  "set_block r c B M =
     map (\<lambda>i. map (\<lambda>j.
            if r \<le> i \<and> i < r + length B \<and> c \<le> j \<and> j < c + length (B ! (i - r))
            then B ! (i - r) ! (j - c) else M ! i ! j)
          [0..<length (M ! i)])
       [0..<length M]"

text \<open>\<open>M[r:r+h, c:c+w] += B\<close>.\<close>

definition add_block :: "nat \<Rightarrow> nat \<Rightarrow> 'a::plus matrix \<Rightarrow> 'a matrix \<Rightarrow> 'a matrix" where
  "add_block r c B M =
     set_block r c
       (map (\<lambda>i. map (\<lambda>j. M ! (r + i) ! (c + j) + B ! i ! j) [0..<length (B ! i)])
          [0..<length B])
       M"

text \<open>\<open>np.eye(N) * 1e-4\<close>.\<close>

definition mat_scale :: "'a::times matrix \<Rightarrow> 'a \<Rightarrow> 'a matrix" where
  "mat_scale M c = map (map (\<lambda>v. v * c)) M"

text \<open>
  Lines 61-64 and 78: \<open>L\<close> is built from \<open>dst_pts\<close> alone. Line 78 runs after \<open>V\<close> is
  filled, which touches neither \<open>L\<close> nor anything \<open>L\<close> is built from.
\<close>

definition tps_L ::
  "('a \<Rightarrow> 'a) \<Rightarrow> 'a::{monoid_add,numeral,minus,times,inverse,ord} point list \<Rightarrow> 'a matrix" where
  "tps_L lg dst_pts =
     (let N = length dst_pts;
          K = tps_K lg dst_pts;
          P = tps_P dst_pts;
          L0 = np_zeros (N + 3) (N + 3);
          L1 = set_block 0 0 K L0;
          L2 = set_block 0 N P L1;
          L3 = set_block N 0 (np_T 3 P) L2
      in add_block 0 0 (mat_scale (np_eye N) (1 / 10000)) L3)"

text \<open>
  Lines 72-73: \<open>V = np.zeros((N + 3, 2)); V[:N, :] = src_pts\<close>. numpy broadcasts the
  right-hand side to the shape \<open>(N, 2)\<close> of the slice: an array of \<open>N\<close> rows is copied, an
  array of one row is repeated \<open>N\<close> times, and any other row count raises
  \<open>ValueError\<close>.
\<close>

definition tps_V :: "nat \<Rightarrow> 'a::zero point list \<Rightarrow> exn + 'a point list" where
  "tps_V N src_pts =
     (let V0 = replicate (N + 3) (0, 0) in
      if length src_pts = N then Inr (src_pts @ drop N V0)
      else if length src_pts = 1 then Inr (replicate N (hd src_pts) @ drop N V0)
      else Inl ValueError)"

section \<open>TPSWarper.warp: the dense map\<close>

text \<open>\<open>np.arange\<close> and \<open>np.full\<close> give pixel indices; they enter the arithmetic as numbers.\<close>

primrec num_of_nat :: "nat \<Rightarrow> 'a::{zero,one,plus}" where
  "num_of_nat 0 = 0"
| "num_of_nat (Suc n) = num_of_nat n + 1"

text \<open>
  \<open>np.dot(row, B)\<close> for one row and an array \<open>B\<close> of two columns. \<open>np.dot\<close> raises when
  the row is not as long as \<open>B\<close> has rows; that cannot happen here, since
  \<open>np.linalg.solve\<close> returns weights of the shape of its right-hand side, \<open>N + 3\<close> rows,
  and the exception is not modelled.
\<close>

definition dot_row :: "'a::{monoid_add,times} list \<Rightarrow> 'a point list \<Rightarrow> 'a point" where
  "dot_row row B =
     (sum_list (map2 (\<lambda>r b. r * fst b) row B), sum_list (map2 (\<lambda>r b. r * snd b) row B))"

text \<open>
  Lines 120-139 for one pixel \<open>q\<close> of the row: the affine part, the radial part and
  their sum.
\<close>

definition tps_map_point ::
  "('a \<Rightarrow> 'a) \<Rightarrow> 'a point list \<Rightarrow> 'a point list \<Rightarrow>
   'a::{monoid_add,numeral,minus,times,inverse,ord} point list \<Rightarrow> 'a point \<Rightarrow> 'a point" where
  "tps_map_point lg w_vals a_vals dst_pts q =
     (let affine_part = dot_row [1, fst q, snd q] a_vals;
          U = map (\<lambda>p. tps_U lg (dist_sq q p)) dst_pts;
          non_linear_part = dot_row U w_vals
      in (fst affine_part + fst non_linear_part, snd affine_part + snd non_linear_part))"

text \<open>
  Lines 101-142: \<open>w_vals = weights[:N]\<close>, \<open>a_vals = weights[N:]\<close>, then one row of the
  maps per \<open>y\<close>. The result is \<open>(map_x, map_y)\<close>, each of shape \<open>(target_h, target_w)\<close>.
  The unused \<open>np.mgrid\<close> of lines 88-91 is left out.
\<close>

definition tps_dense_map ::
  "('a \<Rightarrow> 'a) \<Rightarrow> 'a point list \<Rightarrow>
   'a::{monoid_add,numeral,minus,times,inverse,ord} point list \<Rightarrow> nat \<times> nat \<Rightarrow>
   'a matrix \<times> 'a matrix" where
  "tps_dense_map lg weights dst_pts output_size =
     (let target_w = fst output_size; target_h = snd output_size;
          N = length dst_pts;
          w_vals = take N weights;
          a_vals = drop N weights;
          mapped = map (\<lambda>y. map (\<lambda>x.
                      tps_map_point lg w_vals a_vals dst_pts (num_of_nat x, num_of_nat y))
                    [0..<target_w]) [0..<target_h]
      in (map (map fst) mapped, map (map snd) mapped))"

section \<open>The two warpers\<close>

text \<open>
  A warper returns \<open>Inr (Some image)\<close>, returns \<open>Inr None\<close> (Python's \<open>return None\<close>, its
  only failure result), or raises (\<open>Inl\<close>). \<open>TPSWarper.warp\<close> catches \<open>LinAlgError\<close>
  around the solve and nothing else.
\<close>

definition TPSWarper_warp ::
  "('a::{monoid_add,numeral,minus,times,inverse,ord}, 'img) lib \<Rightarrow> 'img \<Rightarrow>
   'a point list \<Rightarrow> 'a point list \<Rightarrow> nat \<times> nat \<Rightarrow> exn + 'img option" where
  "TPSWarper_warp l img_src src_pts dst_pts output_size =
     (let N = length dst_pts;
          L = tps_L (np_log l) dst_pts
      in case tps_V N src_pts of
           Inl e \<Rightarrow> Inl e
         | Inr V \<Rightarrow>
             (case np_linalg_solve l L V of
                Inl e \<Rightarrow> (if e = LinAlgError then Inr None else Inl e)
              | Inr weights \<Rightarrow>
                  (let maps = tps_dense_map (np_log l) weights dst_pts output_size in
                   case cv_remap l img_src (fst maps) (snd maps) INTER_CUBIC of
                     Inl e \<Rightarrow> Inl e
                   | Inr out \<Rightarrow> Inr (Some out))))"

text \<open>
  \<open>HomographyWarper.warp\<close>: \<open>cv2.warpPerspective(img_src, H, output_size)\<close> is called
  without a \<open>flags\<close> argument, so OpenCV's default \<open>INTER_LINEAR\<close> applies.
\<close>

definition HomographyWarper_warp ::
  "('a::numeral, 'img) lib \<Rightarrow> 'img \<Rightarrow> 'a point list \<Rightarrow> 'a point list \<Rightarrow> nat \<times> nat \<Rightarrow>
   exn + 'img option" where
  "HomographyWarper_warp l img_src src_pts dst_pts output_size =
     (case cv_findHomography l src_pts dst_pts RANSAC 5 of
        Inl e \<Rightarrow> Inl e
      | Inr None \<Rightarrow> Inr None
      | Inr (Some H) \<Rightarrow>
          (case cv_warpPerspective l img_src H output_size INTER_LINEAR of
             Inl e \<Rightarrow> Inl e
           | Inr out \<Rightarrow> Inr (Some out)))"

section \<open>ImageAlignmentApp.run_warp\<close>

text \<open>
  A pane holds the annotations of one image: free points, lines (a start and an end
  point) and faces (four corners, in the order TL, TR, BR, BL in which
  \<open>mouseReleaseEvent\<close> stores them).
\<close>

type_synonym 'p line = "'p \<times> 'p"

type_synonym 'p face = "'p \<times> 'p \<times> 'p \<times> 'p"

record 'p pane =
  pane_points :: "'p list"
  pane_lines :: "'p line list"
  pane_faces :: "'p face list"

text \<open>\<open>face[j]\<close> for \<open>j\<close> in \<open>range(4)\<close>.\<close>

fun corner :: "'p face \<Rightarrow> nat \<Rightarrow> 'p" where
  "corner (p1, p2, p3, p4) j = (if j = 0 then p1 else if j = 1 then p2 else if j = 2 then p3 else p4)"

text \<open>
  Lines 768-788: both lists start as all the free points of their pane; the line loop
  and the face loop append to both.
\<close>

definition collect_points :: "'p pane \<Rightarrow> 'p pane \<Rightarrow> 'p list \<times> 'p list" where
  "collect_points pane1 pane2 =
     (let pts1 = pane_points pane1;
          pts2 = pane_points pane2;
          n_lines = min (length (pane_lines pane1)) (length (pane_lines pane2));
          with_lines =
            fold (\<lambda>i (pts1, pts2).
                    (pts1 @ [fst (pane_lines pane1 ! i), snd (pane_lines pane1 ! i)],
                     pts2 @ [fst (pane_lines pane2 ! i), snd (pane_lines pane2 ! i)]))
              [0..<n_lines] (pts1, pts2);
          n_faces = min (length (pane_faces pane1)) (length (pane_faces pane2))
      in fold (\<lambda>i acc.
                 fold (\<lambda>j (pts1, pts2).
                         (pts1 @ [corner (pane_faces pane1 ! i) j],
                          pts2 @ [corner (pane_faces pane2 ! i) j]))
                   [0..<4] acc)
           [0..<n_faces] with_lines)"

text \<open>
  Lines 790-794: \<open>n = min(len(pts1), len(pts2))\<close>, \<open>src_pts = pts2[:n]\<close>,
  \<open>dst_pts = pts1[:n]\<close>. The result is \<open>(src_pts, dst_pts)\<close>.
\<close>

definition aggregate :: "'p pane \<Rightarrow> 'p pane \<Rightarrow> 'p list \<times> 'p list" where
  "aggregate pane1 pane2 =
     (let pts = collect_points pane1 pane2;
          n = min (length (fst pts)) (length (snd pts))
      in (take n (snd pts), take n (fst pts)))"

text \<open>The two entries of \<open>warp_combo\<close>; \<open>"TPS" in method\<close> holds for the second only.\<close>

datatype warp_method = Perspective_Rigid | TPS_Elastic

text \<open>The messages \<open>run_warp\<close> shows in the status bar.\<close>

datatype status_msg =
    Warping
  | Alignment_calculated nat warp_method
  | Warping_failed
  | Select_at_least_4 nat nat

text \<open>
  The part of the application state \<open>run_warp\<close> reads and writes. \<open>status_log\<close> holds
  the messages \<open>run_warp\<close> has shown in the status bar, oldest first; \<open>warper_calls\<close>
  records every call of a warper's \<open>warp\<close> with its arguments (the method, \<open>src_pts\<close>,
  \<open>dst_pts\<close>, \<open>output_size\<close>).
\<close>

record ('a, 'img) app =
  pane1 :: "'a point pane"
  pane2 :: "'a point pane"
  cv_img1 :: "'img option"
  cv_img2 :: "'img option"
  warp_combo :: warp_method
  warped_img2 :: "'img option"
  btn_save_enabled :: bool
  comparison_view :: "'img option \<times> 'img option"
  status_log :: "status_msg list"
  warper_calls :: "(warp_method \<times> 'a point list \<times> 'a point list \<times> (nat \<times> nat)) list"

definition run_warp ::
  "('a::{monoid_add,numeral,minus,times,inverse,ord}, 'img) lib \<Rightarrow> ('a, 'img) app \<Rightarrow>
   exn + ('a, 'img) app" where
  "run_warp l s =
     (let pts = collect_points (pane1 s) (pane2 s);
          pts1 = fst pts; pts2 = snd pts;
          n = min (length pts1) (length pts2)
      in if n \<ge> 4 \<and> cv_img1 s \<noteq> None \<and> cv_img2 s \<noteq> None then
           (let src_pts = take n pts2;
                dst_pts = take n pts1;
                method = warp_combo s;
                h = fst (img_shape l (the (cv_img1 s)));
                w = snd (img_shape l (the (cv_img1 s)));
                s1 = s\<lparr>status_log := status_log s @ [Warping],
                       warper_calls := warper_calls s @ [(method, src_pts, dst_pts, (w, h))]\<rparr>
            in case (if method = TPS_Elastic
                     then TPSWarper_warp l (the (cv_img2 s)) src_pts dst_pts (w, h)
                     else HomographyWarper_warp l (the (cv_img2 s)) src_pts dst_pts (w, h)) of
                 Inl e \<Rightarrow> Inl e
               | Inr r \<Rightarrow>
                   (if r \<noteq> None
                    then Inr (s1\<lparr>warped_img2 := r,
                                comparison_view := (cv_img1 s, r),
                                btn_save_enabled := True,
                                status_log := status_log s1 @ [Alignment_calculated n method]\<rparr>)
                    else Inr (s1\<lparr>warped_img2 := r,
                                btn_save_enabled := False,
                                status_log := status_log s1 @ [Warping_failed]\<rparr>)))
         else
           Inr (s\<lparr>btn_save_enabled := False,
                  comparison_view := (cv_img1 s, None),
                  status_log :=
                    (if cv_img1 s \<noteq> None \<and> cv_img2 s \<noteq> None
                     then status_log s @ [Select_at_least_4 (length pts1) (length pts2)]
                     else status_log s)\<rparr>))"

text \<open>
  \<open>ComparisonSlider.paintEvent\<close> (main.py lines 454-460) for the images that
  \<open>set_images\<close> stored: with either image missing it draws the text "Pending Alignment
  (Need 4+ points)", otherwise the two images (in the mode selected, which is not
  modelled).
\<close>

datatype 'img display = Pending_Alignment_Need_4_points | Images_drawn 'img 'img

definition ComparisonSlider_paintEvent :: "'img option \<times> 'img option \<Rightarrow> 'img display" where
  "ComparisonSlider_paintEvent view =
     (if fst view = None \<or> snd view = None then Pending_Alignment_Need_4_points
      else Images_drawn (the (fst view)) (the (snd view)))"

section \<open>The reading of the specification\<close>

text \<open>
  The contract of \<open>np.linalg.solve(L, V)\<close> in exact arithmetic: the array it returns,
  multiplied by \<open>L\<close>, gives \<open>V\<close>.
\<close>

definition solves ::
  "'a::{monoid_add,times} matrix \<Rightarrow> 'a point list \<Rightarrow> 'a point list \<Rightarrow> bool" where
  "solves L W V = (map (\<lambda>row. dot_row row W) L = V)"



text \<open>
  The aggregation as the specification words it, for comparison with \<open>aggregate\<close>: per
  image, the free points truncated to the shorter free-point count, then start and
  end of the first \<open>min\<close> lines, then the four corners of the first \<open>min\<close> faces. The
  result is \<open>(src, dst)\<close>, \<open>src\<close> from the second pane as in \<open>run_warp\<close>.
\<close>

definition flatten_spec :: "nat \<Rightarrow> nat \<Rightarrow> nat \<Rightarrow> 'p pane \<Rightarrow> 'p list" where
  "flatten_spec n_points n_lines n_faces pane =
     take n_points (pane_points pane)
     @ concat (map (\<lambda>ln. [fst ln, snd ln]) (take n_lines (pane_lines pane)))
     @ concat (map (\<lambda>f. [corner f 0, corner f 1, corner f 2, corner f 3])
                 (take n_faces (pane_faces pane)))"

definition aggregate_spec :: "'p pane \<Rightarrow> 'p pane \<Rightarrow> 'p list \<times> 'p list" where
  "aggregate_spec paneA paneB =
     (let n_points = min (length (pane_points paneA)) (length (pane_points paneB));
          n_lines = min (length (pane_lines paneA)) (length (pane_lines paneB));
          n_faces = min (length (pane_faces paneA)) (length (pane_faces paneB))
      in (flatten_spec n_points n_lines n_faces paneB,
          flatten_spec n_points n_lines n_faces paneA))"

section \<open>Concrete inputs\<close>

text \<open>
  A library instance for running the model on concrete inputs. An image is a term
  that records the OpenCV call that produced it; the logarithm, the behaviour of the
  solver and the result of \<open>cv2.findHomography\<close> are given.
\<close>

datatype 'a image =
    Loaded nat nat
  | Remapped "'a image" "'a matrix" "'a matrix" interpolation
  | Perspective "'a image" "'a matrix" "nat \<times> nat" interpolation

fun image_shape :: "'a image \<Rightarrow> nat \<times> nat" where
  "image_shape (Loaded h w) = (h, w)"
| "image_shape (Remapped img map_x map_y flags) =
     (length map_x, case map_x of [] \<Rightarrow> 0 | row # _ \<Rightarrow> length row)"
| "image_shape (Perspective img H dsize flags) = (snd dsize, fst dsize)"

definition sym_lib ::
  "('a \<Rightarrow> 'a) \<Rightarrow> ('a matrix \<Rightarrow> 'a point list \<Rightarrow> exn + 'a point list) \<Rightarrow> 'a matrix option \<Rightarrow>
   ('a, 'a image) lib" where
  "sym_lib lg solver H =
     \<lparr>np_log = lg,
      np_linalg_solve = solver,
      cv_remap = (\<lambda>img map_x map_y flags. Inr (Remapped img map_x map_y flags)),
      cv_findHomography = (\<lambda>src_pts dst_pts method threshold. Inr H),
      cv_warpPerspective = (\<lambda>img M dsize flags. Inr (Perspective img M dsize flags)),
      img_shape = image_shape\<rparr>"

text \<open>
  A solver that is known at one system: it returns \<open>W0\<close> for the matrix \<open>L0\<close> and the
  right-hand side \<open>V0\<close>, and raises \<open>LinAlgError\<close> for every other system.
\<close>

definition solver_at ::
  "'a matrix \<Rightarrow> 'a point list \<Rightarrow> 'a point list \<Rightarrow> 'a matrix \<Rightarrow> 'a point list \<Rightarrow>
   exn + 'a point list" where
  "solver_at L0 V0 W0 L V = (if L = L0 \<and> V = V0 then Inr W0 else Inl LinAlgError)"

text \<open>
  A solver that raises \<open>LinAlgError\<close> on every system, as \<open>np.linalg.solve\<close> does when
  the factorisation of the matrix meets an exactly zero pivot.
\<close>

definition singular_solver :: "'a matrix \<Rightarrow> 'a point list \<Rightarrow> exn + 'a point list" where
  "singular_solver L V = Inl LinAlgError"

text \<open>
  Four control points on the corners of the unit pixel square, and targets that are
  not an affine image of them.
\<close>

definition square_dst :: "real point list" where
  "square_dst = [(0, 0), (1, 0), (1, 1), (0, 1)]"

definition bent_src :: "real point list" where
  "bent_src = [(0, 0), (1000, 0), (0, 1), (1000, 1)]"

text \<open>The diagonal entry of \<open>K\<close>: the kernel at the floor \<open>1e-10\<close>.\<close>

definition k0 :: real where
  "k0 = 1 / 2 * (1 / 10000000000) * ln (1 / 10000000000)"

definition bent_D :: real where
  "bent_D = k0 + 1 / 10000 + ln 2"

text \<open>The solution of the system assembled for \<open>square_dst\<close> and \<open>bent_src\<close>.\<close>

definition bent_W :: "real point list" where
  "bent_W = [(- 500 / bent_D, 0), (500 / bent_D, 0), (- 500 / bent_D, 0), (500 / bent_D, 0),
             (500, 0), (0, 0), (0, 1)]"

definition bent_lib :: "(real, real image) lib" where
  "bent_lib =
     sym_lib ln
       (solver_at (tps_L ln square_dst) (bent_src @ [(0, 0), (0, 0), (0, 0)]) bent_W) None"


text \<open>One source point more than there are destination points, and a single one.\<close>

definition five_src :: "real point list" where
  "five_src = [(0, 0), (1, 0), (1, 1), (0, 1), (2, 2)]"

definition one_src :: "real point list" where
  "one_src = [(5, 5)]"

definition one_W :: "real point list" where
  "one_W = [(0, 0), (0, 0), (0, 0), (0, 0), (5, 5), (0, 0), (0, 0)]"

definition one_lib :: "(real, real image) lib" where
  "one_lib =
     sym_lib ln
       (solver_at (tps_L ln square_dst)
          [(5, 5), (5, 5), (5, 5), (5, 5), (0, 0), (0, 0), (0, 0)] one_W) None"

text \<open>
  Four collinear control points: the last column of \<open>L\<close> is zero, \<open>np.linalg.solve\<close>
  raises \<open>LinAlgError\<close> and \<open>cv2.findHomography\<close> returns no matrix.
\<close>

definition collinear_dst :: "real point list" where
  "collinear_dst = [(0, 0), (1, 0), (2, 0), (3, 0)]"

text \<open>
  The unit square with a \<open>nan\<close> among the source coordinates. The right-hand side \<open>V\<close>
  then holds the \<open>nan\<close>; LAPACK's \<open>gesv\<close>, which \<open>np.linalg.solve\<close> calls, reports an
  error only for an exactly zero pivot of \<open>L\<close> and otherwise substitutes through \<open>V\<close>,
  so the \<open>x\<close> column of the weights it returns is \<open>nan\<close>; the \<open>y\<close> column solves \<open>y = y\<close>.
\<close>

definition fl_square_dst :: "fl point list" where
  "fl_square_dst = [(Fin 0, Fin 0), (Fin 1, Fin 0), (Fin 1, Fin 1), (Fin 0, Fin 1)]"

definition nan_src :: "fl point list" where
  "nan_src = [(NaN, Fin 0), (Fin 1, Fin 0), (Fin 1, Fin 1), (Fin 0, Fin 1)]"

definition nan_W :: "fl point list" where
  "nan_W = [(NaN, Fin 0), (NaN, Fin 0), (NaN, Fin 0), (NaN, Fin 0),
            (NaN, Fin 0), (NaN, Fin 0), (NaN, Fin 1)]"

definition nan_lib :: "(fl, fl image) lib" where
  "nan_lib =
     sym_lib fl_log
       (solver_at (tps_L fl_log fl_square_dst) (nan_src @ [(0, 0), (0, 0), (0, 0)]) nan_W) None"

text \<open>
  Annotations with unequal free-point counts: three free points and a line on the
  first image, two free points and a line on the second.
\<close>

definition uneven_pane1 :: "real point pane" where
  "uneven_pane1 =
     \<lparr>pane_points = [(10, 10), (20, 20), (30, 30)],
      pane_lines = [((40, 40), (50, 50))],
      pane_faces = []\<rparr>"

definition uneven_pane2 :: "real point pane" where
  "uneven_pane2 =
     \<lparr>pane_points = [(11, 11), (21, 21)],
      pane_lines = [((41, 41), (51, 51))],
      pane_faces = []\<rparr>"

text \<open>The application right after start: no image loaded, no annotation.\<close>

definition empty_pane :: "real point pane" where
  "empty_pane = \<lparr>pane_points = [], pane_lines = [], pane_faces = []\<rparr>"

definition start_app :: "(real, real image) app" where
  "start_app =
     \<lparr>pane1 = empty_pane, pane2 = empty_pane, cv_img1 = None, cv_img2 = None,
      warp_combo = Perspective_Rigid, warped_img2 = None, btn_save_enabled = False,
      comparison_view = (None, None), status_log = [], warper_calls = []\<rparr>"

text \<open>Both images loaded and three free points on each.\<close>

definition three_points_app :: "(real, real image) app" where
  "three_points_app =
     start_app\<lparr>pane1 := empty_pane\<lparr>pane_points := [(0, 0), (1, 0), (1, 1)]\<rparr>,
               pane2 := empty_pane\<lparr>pane_points := [(0, 0), (2, 0), (2, 2)]\<rparr>,
               cv_img1 := Some (Loaded 4 4), cv_img2 := Some (Loaded 4 4)\<rparr>"

definition identity_H :: "real matrix" where
  "identity_H = [[1, 0, 0], [0, 1, 0], [0, 0, 1]]"

section \<open>The assembled system\<close>

lemma length_set_block: "length (set_block r c B M) = length M"
  by (simp add: set_block_def)

lemma length_set_block_row: "i < length M \<Longrightarrow> length (set_block r c B M ! i) = length (M ! i)"
  by (simp add: set_block_def)

lemma set_block_nth:
  "i < length M \<Longrightarrow> j < length (M ! i) \<Longrightarrow>
   set_block r c B M ! i ! j =
     (if r \<le> i \<and> i < r + length B \<and> c \<le> j \<and> j < c + length (B ! (i - r))
      then B ! (i - r) ! (j - c) else M ! i ! j)"
  by (simp add: set_block_def)

lemma length_add_block: "length (add_block r c B M) = length M"
  by (simp add: add_block_def length_set_block)

lemma length_add_block_row: "i < length M \<Longrightarrow> length (add_block r c B M ! i) = length (M ! i)"
  by (simp add: add_block_def length_set_block_row)

lemma add_block_nth:
  "i < length M \<Longrightarrow> j < length (M ! i) \<Longrightarrow>
   add_block r c B M ! i ! j =
     (if r \<le> i \<and> i < r + length B \<and> c \<le> j \<and> j < c + length (B ! (i - r))
      then M ! i ! j + B ! (i - r) ! (j - c) else M ! i ! j)"
  by (auto simp add: add_block_def set_block_nth)

lemma length_tps_L: "length (tps_L lg dst) = length dst + 3"
  by (simp add: tps_L_def Let_def length_add_block length_set_block np_zeros_def)

lemma length_tps_L_row: "i < length dst + 3 \<Longrightarrow> length (tps_L lg dst ! i) = length dst + 3"
  by (simp add: tps_L_def Let_def length_add_block_row length_set_block_row length_set_block
      np_zeros_def)

lemma tps_L_nth:
  fixes dst :: "real point list"
  assumes "i < length dst + 3" "j < length dst + 3"
  shows "tps_L lg dst ! i ! j =
    (if i < length dst then
       (if j < length dst
        then tps_U lg (dist_sq (dst ! i) (dst ! j)) + (if i = j then 1 / 10000 else 0)
        else [1, fst (dst ! i), snd (dst ! i)] ! (j - length dst))
     else (if j < length dst then [1, fst (dst ! j), snd (dst ! j)] ! (i - length dst) else 0))"
  using assms
  by (auto simp add: tps_L_def Let_def add_block_nth set_block_nth length_set_block
      length_set_block_row np_zeros_def tps_K_def tps_P_def np_T_def np_eye_def mat_scale_def)

lemma tps_V_same_length:
  "length src = n \<Longrightarrow> tps_V n src = Inr (src @ [(0, 0), (0, 0), (0, 0)])"
proof -
  have "replicate 3 x = [x, x, x]" for x :: "'a \<times> 'a"
    by (simp add: numeral_3_eq_3)
  then have "drop n (replicate (n + 3) x) = [x, x, x]" for x :: "'a \<times> 'a"
    by simp
  then show "length src = n \<Longrightarrow> tps_V n src = Inr (src @ [(0, 0), (0, 0), (0, 0)])"
    by (simp add: tps_V_def Let_def)
qed

lemma TPSWarper_warp_unfold:
  assumes "tps_V (length dst) src = Inr V"
  shows "TPSWarper_warp l img src dst sz =
    (case np_linalg_solve l (tps_L (np_log l) dst) V of
       Inl e \<Rightarrow> (if e = LinAlgError then Inr None else Inl e)
     | Inr W \<Rightarrow>
         (case cv_remap l img (fst (tps_dense_map (np_log l) W dst sz))
                 (snd (tps_dense_map (np_log l) W dst sz)) INTER_CUBIC of
            Inl e \<Rightarrow> Inl e
          | Inr out \<Rightarrow> Inr (Some out)))"
  using assms by (simp add: TPSWarper_warp_def Let_def split: sum.splits)

text \<open>
  Claim C1. For a call of the TPS estimator with \<open>n\<close> destination control points and
  \<open>n\<close> source targets, in exact arithmetic: \<open>L\<close> is \<open>(n+3) x (n+3)\<close>; its \<open>K\<close> block
  is \<open>0.5 * d2 * ln d2\<close> with \<open>d2\<close> the squared distance of \<open>dst_i\<close> and \<open>dst_j\<close> clamped
  below by \<open>1e-10\<close>, plus \<open>1e-4\<close> on the diagonal; the \<open>P\<close> block has the rows
  \<open>[1, x_i, y_i]\<close> of the destination points and the \<open>P\<^sup>T\<close> block its transpose; the
  lower right \<open>3 x 3\<close> block is zero; the right-hand side is \<open>src\<close> followed by three
  zero rows; this \<open>L\<close> and this right-hand side are what the solver is called with;
  and the weights the solver returns, which have the shape of the right-hand side,
  have \<open>n + 3\<close> rows (of two columns, by their type). So the spline is fitted from
  destination space to source coordinates.
\<close>

theorem tps_system_assembly:
  fixes l :: "(real, 'img) lib" and src_pts dst_pts :: "real point list"
  assumes lg: "np_log l = ln"
    and len: "length src_pts = length dst_pts"
    and shape: "\<forall>L V W. np_linalg_solve l L V = Inr W \<longrightarrow> length W = length V"
  shows
    "length (tps_L ln dst_pts) = length dst_pts + 3 \<and>
     (\<forall>i < length dst_pts + 3. length (tps_L ln dst_pts ! i) = length dst_pts + 3) \<and>
     (\<forall>i < length dst_pts. \<forall>j < length dst_pts.
        tps_L ln dst_pts ! i ! j =
          (let d2 = max ((fst (dst_pts ! i) - fst (dst_pts ! j)) * (fst (dst_pts ! i) - fst (dst_pts ! j))
                         + (snd (dst_pts ! i) - snd (dst_pts ! j)) * (snd (dst_pts ! i) - snd (dst_pts ! j)))
                        (1 / 10000000000)
           in 1 / 2 * d2 * ln d2 + (if i = j then 1 / 10000 else 0))) \<and>
     (\<forall>i < length dst_pts.
        tps_L ln dst_pts ! i ! length dst_pts = 1 \<and>
        tps_L ln dst_pts ! i ! (length dst_pts + 1) = fst (dst_pts ! i) \<and>
        tps_L ln dst_pts ! i ! (length dst_pts + 2) = snd (dst_pts ! i) \<and>
        tps_L ln dst_pts ! length dst_pts ! i = 1 \<and>
        tps_L ln dst_pts ! (length dst_pts + 1) ! i = fst (dst_pts ! i) \<and>
        tps_L ln dst_pts ! (length dst_pts + 2) ! i = snd (dst_pts ! i)) \<and>
     (\<forall>i < 3. \<forall>j < 3. tps_L ln dst_pts ! (length dst_pts + i) ! (length dst_pts + j) = 0) \<and>
     tps_V (length dst_pts) src_pts = Inr (src_pts @ [(0, 0), (0, 0), (0, 0)]) \<and>
     TPSWarper_warp l img_src src_pts dst_pts output_size =
       (case np_linalg_solve l (tps_L ln dst_pts) (src_pts @ [(0, 0), (0, 0), (0, 0)]) of
          Inl e \<Rightarrow> (if e = LinAlgError then Inr None else Inl e)
        | Inr weights \<Rightarrow>
            (case cv_remap l img_src (fst (tps_dense_map ln weights dst_pts output_size))
                    (snd (tps_dense_map ln weights dst_pts output_size)) INTER_CUBIC of
               Inl e \<Rightarrow> Inl e
             | Inr out \<Rightarrow> Inr (Some out))) \<and>
     (\<forall>weights.
        np_linalg_solve l (tps_L ln dst_pts) (src_pts @ [(0, 0), (0, 0), (0, 0)]) = Inr weights \<longrightarrow>
        length weights = length dst_pts + 3)"
proof -
  let ?n = "length dst_pts"
  have V: "tps_V ?n src_pts = Inr (src_pts @ [(0, 0), (0, 0), (0, 0)])"
    using len by (rule tps_V_same_length)
  have a: "length (tps_L ln dst_pts) = ?n + 3" by (rule length_tps_L)
  have b: "\<forall>i < ?n + 3. length (tps_L ln dst_pts ! i) = ?n + 3"
    by (simp add: length_tps_L_row)
  have c: "\<forall>i < ?n. \<forall>j < ?n.
        tps_L ln dst_pts ! i ! j =
          (let d2 = max ((fst (dst_pts ! i) - fst (dst_pts ! j)) * (fst (dst_pts ! i) - fst (dst_pts ! j))
                         + (snd (dst_pts ! i) - snd (dst_pts ! j)) * (snd (dst_pts ! i) - snd (dst_pts ! j)))
                        (1 / 10000000000)
           in 1 / 2 * d2 * ln d2 + (if i = j then 1 / 10000 else 0))"
    by (simp add: tps_L_nth tps_U_def dist_sq_def Let_def)
  have d: "\<forall>i < ?n.
        tps_L ln dst_pts ! i ! ?n = 1 \<and>
        tps_L ln dst_pts ! i ! (?n + 1) = fst (dst_pts ! i) \<and>
        tps_L ln dst_pts ! i ! (?n + 2) = snd (dst_pts ! i) \<and>
        tps_L ln dst_pts ! ?n ! i = 1 \<and>
        tps_L ln dst_pts ! (?n + 1) ! i = fst (dst_pts ! i) \<and>
        tps_L ln dst_pts ! (?n + 2) ! i = snd (dst_pts ! i)"
    by (simp add: tps_L_nth)
  have e: "\<forall>i < 3. \<forall>j < 3. tps_L ln dst_pts ! (?n + i) ! (?n + j) = 0"
    by (simp add: tps_L_nth)
  have f: "TPSWarper_warp l img_src src_pts dst_pts output_size =
       (case np_linalg_solve l (tps_L ln dst_pts) (src_pts @ [(0, 0), (0, 0), (0, 0)]) of
          Inl e \<Rightarrow> (if e = LinAlgError then Inr None else Inl e)
        | Inr weights \<Rightarrow>
            (case cv_remap l img_src (fst (tps_dense_map ln weights dst_pts output_size))
                    (snd (tps_dense_map ln weights dst_pts output_size)) INTER_CUBIC of
               Inl e \<Rightarrow> Inl e
             | Inr out \<Rightarrow> Inr (Some out)))"
    using TPSWarper_warp_unfold [OF V, of l img_src output_size] unfolding lg .
  have g: "\<forall>weights.
        np_linalg_solve l (tps_L ln dst_pts) (src_pts @ [(0, 0), (0, 0), (0, 0)]) = Inr weights \<longrightarrow>
        length weights = ?n + 3"
    using shape len by auto
  from a b c d e V f g show ?thesis by blast
qed


section \<open>The unit square\<close>

lemma upt_3: "[0..<3] = [0, 1, 2]"
  by (simp add: upt_rec)

lemma upt_4: "[0..<4] = [0, 1, 2, 3]"
  by (simp add: upt_rec)

lemma upt_7: "[0..<7] = [0, 1, 2, 3, 4, 5, 6]"
  by (simp add: upt_rec)

lemma square_K: "tps_K ln square_dst =
  [[k0, 0, ln 2, 0], [0, k0, 0, ln 2], [ln 2, 0, k0, 0], [0, ln 2, 0, k0]]"
  by (simp add: tps_K_def square_dst_def tps_U_def dist_sq_def k0_def Let_def)

lemma square_L: "tps_L ln square_dst =
  [[k0 + 1 / 10000, 0, ln 2, 0, 1, 0, 0],
   [0, k0 + 1 / 10000, 0, ln 2, 1, 1, 0],
   [ln 2, 0, k0 + 1 / 10000, 0, 1, 1, 1],
   [0, ln 2, 0, k0 + 1 / 10000, 1, 0, 1],
   [1, 1, 1, 1, 0, 0, 0],
   [0, 1, 1, 0, 0, 0, 0],
   [0, 0, 1, 1, 0, 0, 0]]"
  unfolding tps_L_def Let_def square_K
  by (simp add: square_dst_def tps_P_def np_zeros_def np_T_def np_eye_def mat_scale_def
      add_block_def set_block_def upt_4 upt_7 upt_3 nth_Cons')

theorem tps_system_assembly_witness:
  "np_log bent_lib = ln \<and>
   length bent_src = length square_dst \<and>
   length (tps_L ln square_dst) = 7 \<and>
   tps_L ln square_dst ! 0 ! 2 = 1 / 2 * 2 * ln 2 \<and>
   tps_L ln square_dst ! 1 ! 1 = 1 / 2 * (1 / 10000000000) * ln (1 / 10000000000) + 1 / 10000 \<and>
   tps_L ln square_dst ! 1 ! 5 = 1 \<and>
   tps_L ln square_dst ! 6 ! 2 = 1 \<and>
   tps_L ln square_dst ! 5 ! 6 = 0 \<and>
   tps_V 4 bent_src = Inr [(0, 0), (1000, 0), (0, 1), (1000, 1), (0, 0), (0, 0), (0, 0)]"
proof -
  have lg: "np_log bent_lib = ln" by (simp add: bent_lib_def sym_lib_def)
  have len: "length bent_src = length square_dst"
    by (simp add: bent_src_def square_dst_def)
  have shape: "\<forall>L V W. np_linalg_solve bent_lib L V = Inr W \<longrightarrow> length W = length V"
    by (simp add: bent_lib_def sym_lib_def solver_at_def bent_W_def bent_src_def)
  note t = tps_system_assembly [OF lg len shape, of "Loaded 2 2" "(2, 2)"]
  have n: "length square_dst = 4" by (simp add: square_dst_def)
  have a: "length (tps_L ln square_dst) = 7" using t n by simp
  have K: "\<forall>i < 4. \<forall>j < 4.
        tps_L ln square_dst ! i ! j =
          (let d2 = max ((fst (square_dst ! i) - fst (square_dst ! j)) * (fst (square_dst ! i) - fst (square_dst ! j))
                         + (snd (square_dst ! i) - snd (square_dst ! j)) * (snd (square_dst ! i) - snd (square_dst ! j)))
                        (1 / 10000000000)
           in 1 / 2 * d2 * ln d2 + (if i = j then 1 / 10000 else 0))"
    using t unfolding n by blast
  have b: "tps_L ln square_dst ! 0 ! 2 = 1 / 2 * 2 * ln 2"
    using K [rule_format, of 0 2] by (simp add: square_dst_def)
  have c: "tps_L ln square_dst ! 1 ! 1 = 1 / 2 * (1 / 10000000000) * ln (1 / 10000000000) + 1 / 10000"
    using K [rule_format, of 1 1] by (simp add: square_dst_def)
  have P: "\<forall>i < 4.
        tps_L ln square_dst ! i ! 4 = 1 \<and>
        tps_L ln square_dst ! i ! (4 + 1) = fst (square_dst ! i) \<and>
        tps_L ln square_dst ! i ! (4 + 2) = snd (square_dst ! i) \<and>
        tps_L ln square_dst ! 4 ! i = 1 \<and>
        tps_L ln square_dst ! (4 + 1) ! i = fst (square_dst ! i) \<and>
        tps_L ln square_dst ! (4 + 2) ! i = snd (square_dst ! i)"
    using t unfolding n by blast
  have d: "tps_L ln square_dst ! 1 ! 5 = 1"
    using P [rule_format, of 1] by (simp add: square_dst_def)
  have e: "tps_L ln square_dst ! 6 ! 2 = 1"
    using P [rule_format, of 2] by (simp add: square_dst_def)
  have Z: "\<forall>i < 3. \<forall>j < 3. tps_L ln square_dst ! (4 + i) ! (4 + j) = 0"
    using t unfolding n by blast
  have f: "tps_L ln square_dst ! 5 ! 6 = 0"
    using Z [rule_format, of 1 2] by simp
  have g: "tps_V 4 bent_src = Inr [(0, 0), (1000, 0), (0, 1), (1000, 1), (0, 0), (0, 0), (0, 0)]"
    using t unfolding n by (simp add: bent_src_def)
  from lg len a b c d e f g show ?thesis by blast
qed


section \<open>The fitted spline at its control points\<close>

lemma weighted_sum_nth:
  fixes row :: "real list"
  assumes "length row = length B"
  shows "sum_list (map2 (\<lambda>r b. r * f b) row B) = (\<Sum>k<length B. row ! k * f (B ! k))"
proof -
  have "sum_list (map2 (\<lambda>r b. r * f b) row B)
        = (\<Sum>k = 0..<length (zip row B). map2 (\<lambda>r b. r * f b) row B ! k)"
    by (simp add: sum_list_sum_nth)
  also have "\<dots> = (\<Sum>k = 0..<length B. row ! k * f (B ! k))"
    using assms by (intro sum.cong) auto
  finally show ?thesis by (simp add: atLeast0LessThan)
qed

lemma tps_L_row_dot:
  fixes dst :: "real point list"
  assumes i: "i < length dst" and W: "length W = length dst + 3"
  shows "sum_list (map2 (\<lambda>r b. r * f b) (tps_L lg dst ! i) W) =
         (\<Sum>k<length dst. tps_U lg (dist_sq (dst ! i) (dst ! k)) * f (W ! k))
         + 1 / 10000 * f (W ! i)
         + (f (W ! length dst) + fst (dst ! i) * f (W ! (length dst + 1))
            + snd (dst ! i) * f (W ! (length dst + 2)))"
proof -
  let ?n = "length dst"
  have len: "length (tps_L lg dst ! i) = length W"
    using i W by (simp add: length_tps_L_row)
  have "sum_list (map2 (\<lambda>r b. r * f b) (tps_L lg dst ! i) W)
        = (\<Sum>k<?n + 3. tps_L lg dst ! i ! k * f (W ! k))"
    using weighted_sum_nth [OF len, of f] W by simp
  also have "\<dots> = (\<Sum>k<?n. tps_L lg dst ! i ! k * f (W ! k))
      + (f (W ! ?n) + fst (dst ! i) * f (W ! (?n + 1)) + snd (dst ! i) * f (W ! (?n + 2)))"
    using i by (simp add: numeral_3_eq_3 tps_L_nth)
  also have "(\<Sum>k<?n. tps_L lg dst ! i ! k * f (W ! k))
      = (\<Sum>k<?n. tps_U lg (dist_sq (dst ! i) (dst ! k)) * f (W ! k)
                 + (if i = k then 1 / 10000 * f (W ! k) else 0))"
    using i by (intro sum.cong) (auto simp add: tps_L_nth algebra_simps)
  also have "\<dots> = (\<Sum>k<?n. tps_U lg (dist_sq (dst ! i) (dst ! k)) * f (W ! k))
                  + 1 / 10000 * f (W ! i)"
    using i by (simp add: sum.distrib)
  finally show ?thesis .
qed

lemma tps_map_point_component:
  fixes dst :: "real point list"
  assumes W: "length W = length dst + 3"
  shows "sum_list (map2 (\<lambda>r b. r * f b) [1, fst q, snd q] (drop (length dst) W))
         + sum_list (map2 (\<lambda>r b. r * f b) (map (\<lambda>p. tps_U lg (dist_sq q p)) dst)
                       (take (length dst) W))
       = (\<Sum>k<length dst. tps_U lg (dist_sq q (dst ! k)) * f (W ! k))
         + (f (W ! length dst) + fst q * f (W ! (length dst + 1))
            + snd q * f (W ! (length dst + 2)))"
proof -
  let ?n = "length dst"
  have l3: "length [1, fst q, snd q] = length (drop ?n W)" using W by simp
  have a: "sum_list (map2 (\<lambda>r b. r * f b) [1, fst q, snd q] (drop ?n W))
           = f (W ! ?n) + fst q * f (W ! (?n + 1)) + snd q * f (W ! (?n + 2))"
    using weighted_sum_nth [OF l3, of f] W by (simp add: numeral_3_eq_3)
  have ln: "length (map (\<lambda>p. tps_U lg (dist_sq q p)) dst) = length (take ?n W)"
    using W by simp
  have b: "sum_list (map2 (\<lambda>r b. r * f b) (map (\<lambda>p. tps_U lg (dist_sq q p)) dst) (take ?n W))
           = (\<Sum>k<?n. tps_U lg (dist_sq q (dst ! k)) * f (W ! k))"
    using weighted_sum_nth [OF ln, of f] W by simp
  show ?thesis by (simp add: a b)
qed

lemma tps_map_point_at_control:
  fixes dst src W :: "real point list"
  assumes len: "length src = length dst"
    and W: "length W = length dst + 3"
    and sol: "solves (tps_L lg dst) W (src @ [(0, 0), (0, 0), (0, 0)])"
    and i: "i < length dst"
  shows "tps_map_point lg (take (length dst) W) (drop (length dst) W) dst (dst ! i) =
         (fst (src ! i) - 1 / 10000 * fst (W ! i), snd (src ! i) - 1 / 10000 * snd (W ! i))"
proof -
  let ?n = "length dst"
  let ?L = "tps_L lg dst"
  have "map (\<lambda>row. dot_row row W) ?L ! i = (src @ [(0, 0), (0, 0), (0, 0)]) ! i"
    using sol by (simp add: solves_def)
  then have row: "dot_row (?L ! i) W = src ! i"
    using i len by (simp add: length_tps_L nth_append)
  have rx: "sum_list (map2 (\<lambda>r b. r * fst b) (?L ! i) W) = fst (src ! i)"
    using arg_cong [OF row, of fst] by (simp add: dot_row_def)
  have ry: "sum_list (map2 (\<lambda>r b. r * snd b) (?L ! i) W) = snd (src ! i)"
    using arg_cong [OF row, of snd] by (simp add: dot_row_def)
  have x: "fst (src ! i) = (\<Sum>k<?n. tps_U lg (dist_sq (dst ! i) (dst ! k)) * fst (W ! k))
         + 1 / 10000 * fst (W ! i)
         + (fst (W ! ?n) + fst (dst ! i) * fst (W ! (?n + 1)) + snd (dst ! i) * fst (W ! (?n + 2)))"
    unfolding rx [symmetric] by (rule tps_L_row_dot [OF i W])
  have y: "snd (src ! i) = (\<Sum>k<?n. tps_U lg (dist_sq (dst ! i) (dst ! k)) * snd (W ! k))
         + 1 / 10000 * snd (W ! i)
         + (snd (W ! ?n) + fst (dst ! i) * snd (W ! (?n + 1)) + snd (dst ! i) * snd (W ! (?n + 2)))"
    unfolding ry [symmetric] by (rule tps_L_row_dot [OF i W])
  show ?thesis
    unfolding tps_map_point_def Let_def dot_row_def fst_conv snd_conv
    using tps_map_point_component [OF W, of fst "dst ! i" lg]
          tps_map_point_component [OF W, of snd "dst ! i" lg] x y
    by simp
qed

text \<open>
  Claim C2, as amended. In exact arithmetic, for \<open>n\<close> correspondence pairs and weights
  that solve the assembled system, the fitted spline evaluated at \<open>dst[i]\<close> gives
  \<open>src[i] - 1e-4 * weights[i]\<close>: the diagonal regularisation leaves a residual of
  \<open>1e-4\<close> times the \<open>i\<close>-th weight row. The value is within \<open>1e-3\<close> of \<open>src[i]\<close>, in
  either coordinate, exactly when that weight is at most \<open>10\<close> in absolute value.
\<close>

theorem tps_interpolation_residual:
  fixes dst_pts src_pts weights V :: "real point list"
  assumes len: "length src_pts = length dst_pts"
    and V: "tps_V (length dst_pts) src_pts = Inr V"
    and sol: "solves (tps_L lg dst_pts) weights V"
    and W: "length weights = length V"
    and i: "i < length dst_pts"
  shows
    "tps_map_point lg (take (length dst_pts) weights) (drop (length dst_pts) weights) dst_pts
       (dst_pts ! i) =
       (fst (src_pts ! i) - 1 / 10000 * fst (weights ! i),
        snd (src_pts ! i) - 1 / 10000 * snd (weights ! i)) \<and>
     (\<bar>fst (tps_map_point lg (take (length dst_pts) weights) (drop (length dst_pts) weights)
              dst_pts (dst_pts ! i)) - fst (src_pts ! i)\<bar> \<le> 1 / 1000)
       = (\<bar>fst (weights ! i)\<bar> \<le> 10) \<and>
     (\<bar>snd (tps_map_point lg (take (length dst_pts) weights) (drop (length dst_pts) weights)
              dst_pts (dst_pts ! i)) - snd (src_pts ! i)\<bar> \<le> 1 / 1000)
       = (\<bar>snd (weights ! i)\<bar> \<le> 10)"
proof -
  have V': "V = src_pts @ [(0, 0), (0, 0), (0, 0)]"
    using V tps_V_same_length [OF len] by simp
  have W': "length weights = length dst_pts + 3"
    using W len by (simp add: V')
  have e: "tps_map_point lg (take (length dst_pts) weights) (drop (length dst_pts) weights)
             dst_pts (dst_pts ! i) =
           (fst (src_pts ! i) - 1 / 10000 * fst (weights ! i),
            snd (src_pts ! i) - 1 / 10000 * snd (weights ! i))"
    using tps_map_point_at_control [OF len W' sol [unfolded V'] i] .
  have t: "(\<bar>a - 1 / 10000 * w - a\<bar> \<le> 1 / 1000) = (\<bar>w\<bar> \<le> 10)" for a w :: real
    by (auto simp add: abs_if)
  show ?thesis unfolding e fst_conv snd_conv t by simp
qed


section \<open>The unit square with bent targets\<close>

lemma k0_bounds: "- (1 / 100000) < k0 \<and> k0 < 0"
proof -
  have "ln (1 / 10000000000 :: real) = - ln 10000000000"
    by (simp add: ln_div)
  also have "\<dots> = - (10 * ln 10)"
    using ln_realpow [of "10 :: real" 10] by simp
  finally have e: "k0 = - (1 / 2 * (1 / 10000000000) * (10 * ln 10))"
    by (simp add: k0_def)
  have u: "ln (10 :: real) \<le> 9"
    using ln_le_minus_one [of "10 :: real"] by simp
  have l: "0 < ln (10 :: real)" by simp
  show ?thesis unfolding e using u l by auto
qed

lemma bent_D_bounds: "0 < bent_D \<and> bent_D < 2"
proof -
  have "0 < ln (2 :: real)" by simp
  moreover have "ln (2 :: real) \<le> 1"
    using ln_le_minus_one [of "2 :: real"] by simp
  moreover have "- (1 / 100000) < k0" "k0 < 0" using k0_bounds by blast+
  ultimately show ?thesis unfolding bent_D_def by linarith
qed

lemma bent_W_solves: "solves (tps_L ln square_dst) bent_W (bent_src @ [(0, 0), (0, 0), (0, 0)])"
proof -
  have D: "bent_D \<noteq> 0" using bent_D_bounds by simp
  have a: "(k0 + 1 / 10000) * x + ln 2 * x = bent_D * x" for x
    by (simp add: bent_D_def algebra_simps)
  have b: "(k0 + 1 / 10000) * (500 / bent_D) + ln 2 * (500 / bent_D) = 500"
    using a [of "500 / bent_D"] D by simp
  have c: "(k0 + 1 / 10000) * (- 500 / bent_D) + ln 2 * (- 500 / bent_D) = - 500"
    using a [of "- 500 / bent_D"] D by simp
  show ?thesis
    unfolding solves_def square_L
    using b c by (simp add: dot_row_def bent_W_def bent_src_def algebra_simps)
qed

lemma bent_weight_forced:
  assumes len: "length W = 7"
    and sol: "solves (tps_L ln square_dst) W (bent_src @ [(0, 0), (0, 0), (0, 0)])"
  shows "fst (W ! 0) = - 500 / bent_D"
proof -
  obtain p0 p1 p2 p3 p4 p5 p6 where W: "W = [p0, p1, p2, p3, p4, p5, p6]"
    using len by (auto simp add: length_Suc_conv eval_nat_numeral)
  define w0 w1 w2 w3 a0 ax ay where
    "w0 = fst p0" and "w1 = fst p1" and "w2 = fst p2" and "w3 = fst p3"
    and "a0 = fst p4" and "ax = fst p5" and "ay = fst p6"
  note d = w0_def w1_def w2_def w3_def a0_def ax_def ay_def
  have eqs: "map (\<lambda>row. fst (dot_row row W)) (tps_L ln square_dst)
             = map fst (bent_src @ [(0, 0), (0, 0), (0, 0)])"
    using arg_cong [OF sol [unfolded solves_def], of "map fst"] by (simp add: comp_def)
  have r0: "(k0 + 1 / 10000) * w0 + ln 2 * w2 + a0 = 0"
   and r1: "(k0 + 1 / 10000) * w1 + ln 2 * w3 + a0 + ax = 1000"
   and r2: "ln 2 * w0 + (k0 + 1 / 10000) * w2 + a0 + ax + ay = 0"
   and r3: "ln 2 * w1 + (k0 + 1 / 10000) * w3 + a0 + ay = 1000"
   and s0: "w0 + w1 + w2 + w3 = 0"
   and s1: "w1 + w2 = 0"
   and s2: "w2 + w3 = 0"
    using eqs unfolding square_L W d by (simp_all add: dot_row_def bent_src_def algebra_simps)
  have w1: "w1 = - w0" and w2: "w2 = w0" and w3: "w3 = - w0"
    using s0 s1 s2 by linarith+
  have "(k0 + 1 / 10000) * w0 + ln 2 * w0 - ((k0 + 1 / 10000) * (- w0) + ln 2 * (- w0))
        + (ln 2 * w0 + (k0 + 1 / 10000) * w0) - (ln 2 * (- w0) + (k0 + 1 / 10000) * (- w0))
        = - 2000"
    using r0 r1 r2 r3 unfolding w1 w2 w3 by linarith
  then have "4 * (bent_D * w0) = - 2000"
    by (simp add: bent_D_def algebra_simps)
  then have "bent_D * w0 = - 500" by simp
  then have "w0 = - 500 / bent_D"
    using bent_D_bounds by (simp add: field_simps)
  then show ?thesis by (simp add: W w0_def)
qed

lemma bent_pixel:
  assumes len: "length W = 7"
    and sol: "solves (tps_L ln square_dst) W (bent_src @ [(0, 0), (0, 0), (0, 0)])"
  shows "fst (tps_dense_map ln W square_dst (2, 2)) ! 0 ! 0 = 1 / 20 / bent_D"
proof -
  have l: "length bent_src = length square_dst" by (simp add: bent_src_def square_dst_def)
  have lw: "length W = length square_dst + 3" using len by (simp add: square_dst_def)
  have i: "0 < length square_dst" by (simp add: square_dst_def)
  have "fst (tps_dense_map ln W square_dst (2, 2)) ! 0 ! 0
        = fst (tps_map_point ln (take (length square_dst) W) (drop (length square_dst) W)
                 square_dst (square_dst ! 0))"
    by (simp add: tps_dense_map_def Let_def upt_rec [of 0 2] square_dst_def)
  also have "\<dots> = fst (bent_src ! 0) - 1 / 10000 * fst (W ! 0)"
    using tps_map_point_at_control [OF l lw sol i] by simp
  also have "\<dots> = 1 / 20 / bent_D"
    using bent_weight_forced [OF len sol] by (simp add: bent_src_def)
  finally show ?thesis .
qed

lemma bent_V: "tps_V (length square_dst) bent_src = Inr (bent_src @ [(0, 0), (0, 0), (0, 0)])"
  by (rule tps_V_same_length) (simp add: bent_src_def square_dst_def)

text \<open>
  Claim C2 as stated fails. Control points on the corners of the unit pixel square
  and the targets \<open>bent_src\<close>: the estimation succeeds, \<open>bent_W\<close> solves the assembled
  system, and for every solution of that system the dense map at the pixel \<open>(0, 0)\<close>,
  which is \<open>dst[0]\<close>, is more than \<open>1e-3\<close> away from \<open>src[0]\<close> (it is \<open>0.05 / bent_D\<close>,
  about \<open>0.07\<close>).
\<close>

theorem tps_interpolation_counterexample:
  "4 \<le> length square_dst \<and> length bent_src = length square_dst \<and>
   TPSWarper_warp bent_lib (Loaded 2 2) bent_src square_dst (2, 2) =
     Inr (Some (Remapped (Loaded 2 2)
                  (fst (tps_dense_map ln bent_W square_dst (2, 2)))
                  (snd (tps_dense_map ln bent_W square_dst (2, 2))) INTER_CUBIC)) \<and>
   solves (tps_L ln square_dst) bent_W (bent_src @ [(0, 0), (0, 0), (0, 0)]) \<and>
   square_dst ! 0 = (0, 0) \<and>
   \<not> (\<exists>W. length W = 7 \<and> solves (tps_L ln square_dst) W (bent_src @ [(0, 0), (0, 0), (0, 0)]) \<and>
      \<bar>fst (tps_dense_map ln W square_dst (2, 2)) ! 0 ! 0 - fst (bent_src ! 0)\<bar> \<le> 1 / 1000)"
proof -
  have D: "0 < bent_D" "bent_D < 2" using bent_D_bounds by blast+
  have big: "1 / 1000 < 1 / 20 / bent_D"
    using D by (simp add: field_simps)
  have far: "\<not> \<bar>fst (tps_dense_map ln W square_dst (2, 2)) ! 0 ! 0 - fst (bent_src ! 0)\<bar> \<le> 1 / 1000"
    if "length W = 7" "solves (tps_L ln square_dst) W (bent_src @ [(0, 0), (0, 0), (0, 0)])" for W
  proof -
    have e: "fst (tps_dense_map ln W square_dst (2, 2)) ! 0 ! 0 - fst (bent_src ! 0) = 1 / 20 / bent_D"
      using bent_pixel [OF that] by (simp add: bent_src_def)
    have pos: "0 < 1 / 20 / bent_D" using D by simp
    show ?thesis
      unfolding e abs_of_pos [OF pos] using big by linarith
  qed
  have run: "TPSWarper_warp bent_lib (Loaded 2 2) bent_src square_dst (2, 2) =
     Inr (Some (Remapped (Loaded 2 2)
                  (fst (tps_dense_map ln bent_W square_dst (2, 2)))
                  (snd (tps_dense_map ln bent_W square_dst (2, 2))) INTER_CUBIC))"
    unfolding TPSWarper_warp_unfold [OF bent_V]
    by (simp add: bent_lib_def sym_lib_def solver_at_def)
  have n: "4 \<le> length square_dst" "length bent_src = length square_dst" "square_dst ! 0 = (0, 0)"
    by (simp_all add: bent_src_def square_dst_def)
  from n run bent_W_solves far show ?thesis by blast
qed

text \<open>The residual of claim C2 at the second control point of the unit square.\<close>

theorem tps_interpolation_residual_witness:
  "length bent_src = length square_dst \<and>
   tps_V (length square_dst) bent_src = Inr (bent_src @ [(0, 0), (0, 0), (0, 0)]) \<and>
   solves (tps_L ln square_dst) bent_W (bent_src @ [(0, 0), (0, 0), (0, 0)]) \<and>
   length bent_W = length (bent_src @ [(0, 0), (0, 0), (0, 0)]) \<and>
   1 < length square_dst \<and>
   tps_map_point ln (take 4 bent_W) (drop 4 bent_W) square_dst (1, 0) =
     (1000 - 1 / 10000 * (500 / bent_D), 0)"
proof -
  have len: "length bent_src = length square_dst"
    by (simp add: bent_src_def square_dst_def)
  have W: "length bent_W = length (bent_src @ [(0, 0), (0, 0), (0, 0)])"
    by (simp add: bent_W_def bent_src_def)
  have i: "1 < length square_dst" by (simp add: square_dst_def)
  have "tps_map_point ln (take 4 bent_W) (drop 4 bent_W) square_dst (1, 0) =
     (1000 - 1 / 10000 * (500 / bent_D), 0)"
    using tps_interpolation_residual [OF len bent_V bent_W_solves W i]
    by (simp add: square_dst_def bent_src_def bent_W_def)
  with len bent_V bent_W_solves W i show ?thesis by blast
qed


section \<open>Failures of the warpers\<close>

lemma tps_V_cases:
  "tps_V n src = Inl e \<Longrightarrow> e = ValueError \<and> length src \<noteq> n \<and> length src \<noteq> 1"
  by (simp add: tps_V_def Let_def split: if_splits)

lemma tps_V_mismatch:
  "length src \<noteq> n \<Longrightarrow> length src \<noteq> 1 \<Longrightarrow> tps_V n src = Inl ValueError"
  by (simp add: tps_V_def Let_def)

lemma TPSWarper_warp_None:
  "(TPSWarper_warp l img src dst sz = Inr None) =
   (\<exists>V. tps_V (length dst) src = Inr V \<and>
        np_linalg_solve l (tps_L (np_log l) dst) V = Inl LinAlgError)"
  by (auto simp add: TPSWarper_warp_def Let_def split: sum.splits if_splits)

lemma HomographyWarper_warp_None:
  "(HomographyWarper_warp l img src dst sz = Inr None) =
   (cv_findHomography l src dst RANSAC 5 = Inr None)"
  by (auto simp add: HomographyWarper_warp_def split: sum.splits option.splits)

text \<open>
  Claim C4, as amended. The core does not validate its inputs. \<open>TPSWarper.warp\<close> called
  with \<open>len(src)\<close> different from \<open>len(dst)\<close> and from \<open>1\<close> raises \<open>ValueError\<close> from
  the slice assignment of line 73, before the solve; it returns its failure result
  \<open>None\<close> exactly when the right-hand side could be assigned and the solve raised
  \<open>LinAlgError\<close>. \<open>HomographyWarper.warp\<close> returns \<open>None\<close> exactly when
  \<open>cv2.findHomography\<close> returns no matrix. Neither has a branch for mismatched
  lengths, non-finite coordinates or an empty output size.
\<close>

theorem warp_without_validation:
  fixes l :: "('a::{monoid_add,numeral,minus,times,inverse,ord}, 'img) lib"
  shows
    "(length src_pts \<noteq> length dst_pts \<and> length src_pts \<noteq> 1 \<longrightarrow>
        TPSWarper_warp l img_src src_pts dst_pts output_size = Inl ValueError) \<and>
     (TPSWarper_warp l img_src src_pts dst_pts output_size = Inr None) =
       (\<exists>V. tps_V (length dst_pts) src_pts = Inr V \<and>
            np_linalg_solve l (tps_L (np_log l) dst_pts) V = Inl LinAlgError) \<and>
     (HomographyWarper_warp l img_src src_pts dst_pts output_size = Inr None) =
       (cv_findHomography l src_pts dst_pts RANSAC 5 = Inr None)"
proof -
  have "TPSWarper_warp l img_src src_pts dst_pts output_size = Inl ValueError"
    if "length src_pts \<noteq> length dst_pts" "length src_pts \<noteq> 1"
    using tps_V_mismatch [OF that] by (simp add: TPSWarper_warp_def Let_def)
  then show ?thesis
    using TPSWarper_warp_None [of l img_src src_pts dst_pts output_size]
      HomographyWarper_warp_None [of l img_src src_pts dst_pts output_size]
    by blast
qed

lemma one_W_solves:
  "solves (tps_L ln square_dst) one_W [(5, 5), (5, 5), (5, 5), (5, 5), (0, 0), (0, 0), (0, 0)]"
  unfolding solves_def square_L by (simp add: dot_row_def one_W_def)

lemma one_V:
  "tps_V (length square_dst) one_src = Inr [(5, 5), (5, 5), (5, 5), (5, 5), (0, 0), (0, 0), (0, 0)]"
  by (simp add: tps_V_def Let_def square_dst_def one_src_def numeral_eq_Suc)

text \<open>
  Claim C4 as stated fails. With five source points and four destination points
  \<open>TPSWarper.warp\<close> raises \<open>ValueError\<close>; it does not return a failure. With one source
  point and four destination points numpy broadcasts the point over the four rows:
  the system has the solution \<open>one_W\<close> and the call returns a remapped image.
\<close>

theorem warp_validation_counterexample:
  "length five_src \<noteq> length square_dst \<and>
   TPSWarper_warp bent_lib (Loaded 2 2) five_src square_dst (2, 2) = Inl ValueError \<and>
   length one_src \<noteq> length square_dst \<and>
   solves (tps_L ln square_dst) one_W [(5, 5), (5, 5), (5, 5), (5, 5), (0, 0), (0, 0), (0, 0)] \<and>
   TPSWarper_warp one_lib (Loaded 2 2) one_src square_dst (2, 2) =
     Inr (Some (Remapped (Loaded 2 2)
                  (fst (tps_dense_map ln one_W square_dst (2, 2)))
                  (snd (tps_dense_map ln one_W square_dst (2, 2))) INTER_CUBIC))"
proof -
  have a: "length five_src \<noteq> length square_dst" "length one_src \<noteq> length square_dst"
    by (simp_all add: five_src_def one_src_def square_dst_def)
  have b: "TPSWarper_warp bent_lib (Loaded 2 2) five_src square_dst (2, 2) = Inl ValueError"
    by (simp add: TPSWarper_warp_def Let_def tps_V_def five_src_def square_dst_def)
  have c: "TPSWarper_warp one_lib (Loaded 2 2) one_src square_dst (2, 2) =
     Inr (Some (Remapped (Loaded 2 2)
                  (fst (tps_dense_map ln one_W square_dst (2, 2)))
                  (snd (tps_dense_map ln one_W square_dst (2, 2))) INTER_CUBIC))"
    unfolding TPSWarper_warp_unfold [OF one_V]
    by (simp add: one_lib_def sym_lib_def solver_at_def)
  from a b c one_W_solves show ?thesis by blast
qed

text \<open>Claim C4 at five source points and four destination points.\<close>

theorem warp_without_validation_witness:
  "length five_src \<noteq> length collinear_dst \<and> length five_src \<noteq> 1 \<and>
   TPSWarper_warp (sym_lib ln singular_solver None) (Loaded 4 4) five_src collinear_dst (4, 4)
     = Inl ValueError"
proof -
  have h: "length five_src \<noteq> length collinear_dst \<and> length five_src \<noteq> 1"
    by (simp add: five_src_def collinear_dst_def)
  show ?thesis
    using h warp_without_validation
      [of five_src collinear_dst "sym_lib ln singular_solver None" "Loaded 4 4" "(4, 4)"]
    by blast
qed


section \<open>Failures of the solve\<close>

lemma collinear_last_column:
  "map (\<lambda>row. row ! 6) (tps_L ln collinear_dst) = [0, 0, 0, 0, 0, 0, 0]"
proof -
  have n: "length collinear_dst = 4" by (simp add: collinear_dst_def)
  have "tps_L ln collinear_dst ! i ! 6 = 0" if "i < 7" for i
    using that tps_L_nth [of i collinear_dst 6 ln]
    by (auto simp add: n collinear_dst_def nth_Cons' less_Suc_eq numeral_eq_Suc)
  moreover have "length (tps_L ln collinear_dst) = 7"
    by (simp add: length_tps_L n)
  ultimately show ?thesis
    by (intro nth_equalityI) (simp_all add: nth_Cons')
qed

text \<open>
  Claim C6, as amended. For a TPS estimation call whose right-hand side could be
  assigned, the estimator returns its failure result \<open>None\<close> exactly when
  \<open>np.linalg.solve\<close> raises \<open>LinAlgError\<close>. The code has no singularity check of its own:
  a singular system gives a failure only if numpy raises for it. Whatever weights a
  successful solve returns, finite or not, go into the dense map and the result is
  that of \<open>cv2.remap\<close> on it. There is no check for \<open>nan\<close> or \<open>inf\<close> after the solve.
\<close>

theorem tps_failure_only_from_solve:
  fixes l :: "('a::{monoid_add,numeral,minus,times,inverse,ord}, 'img) lib"
  assumes V: "tps_V (length dst_pts) src_pts = Inr V"
  shows
    "(np_linalg_solve l (tps_L (np_log l) dst_pts) V = Inl LinAlgError \<longrightarrow>
        TPSWarper_warp l img_src src_pts dst_pts output_size = Inr None) \<and>
     (TPSWarper_warp l img_src src_pts dst_pts output_size = Inr None \<longrightarrow>
        np_linalg_solve l (tps_L (np_log l) dst_pts) V = Inl LinAlgError) \<and>
     (\<forall>weights. np_linalg_solve l (tps_L (np_log l) dst_pts) V = Inr weights \<longrightarrow>
        TPSWarper_warp l img_src src_pts dst_pts output_size =
          (case cv_remap l img_src
                  (fst (tps_dense_map (np_log l) weights dst_pts output_size))
                  (snd (tps_dense_map (np_log l) weights dst_pts output_size)) INTER_CUBIC of
             Inl e \<Rightarrow> Inl e
           | Inr out \<Rightarrow> Inr (Some out)))"
proof -
  have a: "(TPSWarper_warp l img_src src_pts dst_pts output_size = Inr None) =
           (np_linalg_solve l (tps_L (np_log l) dst_pts) V = Inl LinAlgError)"
    using V by (simp add: TPSWarper_warp_None)
  have b: "TPSWarper_warp l img_src src_pts dst_pts output_size =
          (case cv_remap l img_src
                  (fst (tps_dense_map (np_log l) weights dst_pts output_size))
                  (snd (tps_dense_map (np_log l) weights dst_pts output_size)) INTER_CUBIC of
             Inl e \<Rightarrow> Inl e
           | Inr out \<Rightarrow> Inr (Some out))"
    if "np_linalg_solve l (tps_L (np_log l) dst_pts) V = Inr weights" for weights
    unfolding TPSWarper_warp_unfold [OF V] that by simp
  from a b show ?thesis by blast
qed

text \<open>
  Claim C6 at four collinear control points, where the last column of \<open>L\<close> is zero and
  the solve raises \<open>LinAlgError\<close>, and at the unit square, where the solve succeeds.
\<close>

theorem tps_failure_only_from_solve_witness:
  "tps_V (length collinear_dst) square_dst = Inr (square_dst @ [(0, 0), (0, 0), (0, 0)]) \<and>
   map (\<lambda>row. row ! 6) (tps_L ln collinear_dst) = [0, 0, 0, 0, 0, 0, 0] \<and>
   TPSWarper_warp (sym_lib ln singular_solver None) (Loaded 4 4) square_dst collinear_dst (4, 4)
     = Inr None \<and>
   tps_V (length square_dst) bent_src = Inr (bent_src @ [(0, 0), (0, 0), (0, 0)]) \<and>
   TPSWarper_warp bent_lib (Loaded 2 2) bent_src square_dst (2, 2) =
     Inr (Some (Remapped (Loaded 2 2)
                  (fst (tps_dense_map ln bent_W square_dst (2, 2)))
                  (snd (tps_dense_map ln bent_W square_dst (2, 2))) INTER_CUBIC))"
proof -
  let ?l = "sym_lib ln singular_solver None :: (real, real image) lib"
  have V1: "tps_V (length collinear_dst) square_dst = Inr (square_dst @ [(0, 0), (0, 0), (0, 0)])"
    by (rule tps_V_same_length) (simp add: square_dst_def collinear_dst_def)
  have s1: "np_linalg_solve ?l (tps_L (np_log ?l) collinear_dst)
              (square_dst @ [(0, 0), (0, 0), (0, 0)]) = Inl LinAlgError"
    by (simp add: sym_lib_def singular_solver_def)
  have r1: "TPSWarper_warp ?l (Loaded 4 4) square_dst collinear_dst (4, 4) = Inr None"
    using tps_failure_only_from_solve [OF V1, of ?l "Loaded 4 4" "(4, 4)"] s1 by blast
  have lg: "np_log bent_lib = ln" by (simp add: bent_lib_def sym_lib_def)
  have s2: "np_linalg_solve bent_lib (tps_L (np_log bent_lib) square_dst)
              (bent_src @ [(0, 0), (0, 0), (0, 0)]) = Inr bent_W"
    by (simp add: bent_lib_def sym_lib_def solver_at_def)
  have "TPSWarper_warp bent_lib (Loaded 2 2) bent_src square_dst (2, 2) =
          (case cv_remap bent_lib (Loaded 2 2)
                  (fst (tps_dense_map (np_log bent_lib) bent_W square_dst (2, 2)))
                  (snd (tps_dense_map (np_log bent_lib) bent_W square_dst (2, 2))) INTER_CUBIC of
             Inl e \<Rightarrow> Inl e
           | Inr out \<Rightarrow> Inr (Some out))"
    using tps_failure_only_from_solve [OF bent_V, of bent_lib "Loaded 2 2" "(2, 2)"] s2 by blast
  then have r2: "TPSWarper_warp bent_lib (Loaded 2 2) bent_src square_dst (2, 2) =
     Inr (Some (Remapped (Loaded 2 2)
                  (fst (tps_dense_map ln bent_W square_dst (2, 2)))
                  (snd (tps_dense_map ln bent_W square_dst (2, 2))) INTER_CUBIC))"
    unfolding lg by (simp add: bent_lib_def sym_lib_def)
  from V1 collinear_last_column r1 bent_V r2 show ?thesis by blast
qed

section \<open>Non-finite values\<close>

lemma numeral_fl: "(numeral k :: fl) = Fin (numeral k)"
proof (induction k)
  case One
  show ?case by (simp add: one_fl_def)
next
  case (Bit0 k)
  have "(numeral (num.Bit0 k) :: fl) = numeral k + numeral k"
    by (rule numeral_Bit0)
  also have "\<dots> = Fin (numeral k + numeral k)"
    unfolding Bit0.IH plus_fl_def by simp
  also have "numeral k + numeral k = (numeral (num.Bit0 k) :: real)"
    by (rule numeral_Bit0 [symmetric])
  finally show ?case .
next
  case (Bit1 k)
  have "(numeral (num.Bit1 k) :: fl) = numeral k + numeral k + 1"
    by (rule numeral_Bit1)
  also have "\<dots> = Fin (numeral k + numeral k + 1)"
    unfolding Bit1.IH plus_fl_def one_fl_def by simp
  also have "numeral k + numeral k + 1 = (numeral (num.Bit1 k) :: real)"
    by (rule numeral_Bit1 [symmetric])
  finally show ?case .
qed

lemma fl_mul_NaN: "fl_mul x NaN = NaN"
  by (cases x) simp_all

lemma fl_add_NaN: "fl_add x NaN = NaN"
  by (cases x) simp_all

lemmas fl_arith = zero_fl_def one_fl_def plus_fl_def minus_fl_def times_fl_def divide_fl_def
  less_eq_fl_def numeral_fl fl_mul_NaN fl_add_NaN

lemma nan_V: "tps_V (length fl_square_dst) nan_src = Inr (nan_src @ [(0, 0), (0, 0), (0, 0)])"
  by (rule tps_V_same_length) (simp add: nan_src_def fl_square_dst_def)

lemma nan_dense_map:
  "tps_dense_map fl_log nan_W fl_square_dst (1, 1) = ([[NaN]], [[Fin 0]])"
  by (simp add: tps_dense_map_def tps_map_point_def dot_row_def tps_U_def dist_sq_def Let_def
      nan_W_def fl_square_dst_def fl_arith max_def)

text \<open>
  Claim C6 as stated fails. With a \<open>nan\<close> among the source coordinates the solve
  succeeds with non-finite weights; the estimator does not fail, and the \<open>nan\<close> is in
  the dense map handed to \<open>cv2.remap\<close>.
\<close>

theorem tps_nan_counterexample:
  "np_linalg_solve nan_lib (tps_L (np_log nan_lib) fl_square_dst) (nan_src @ [(0, 0), (0, 0), (0, 0)])
     = Inr nan_W \<and>
   \<not> is_finite (fst (nan_W ! 0)) \<and>
   TPSWarper_warp nan_lib (Loaded 1 1) nan_src fl_square_dst (1, 1)
     = Inr (Some (Remapped (Loaded 1 1) [[NaN]] [[Fin 0]] INTER_CUBIC))"
proof -
  have a: "np_linalg_solve nan_lib (tps_L (np_log nan_lib) fl_square_dst)
             (nan_src @ [(0, 0), (0, 0), (0, 0)]) = Inr nan_W"
    by (simp add: nan_lib_def sym_lib_def solver_at_def)
  have b: "\<not> is_finite (fst (nan_W ! 0))" by (simp add: nan_W_def)
  have lg: "np_log nan_lib = fl_log" by (simp add: nan_lib_def sym_lib_def)
  have a': "np_linalg_solve nan_lib (tps_L fl_log fl_square_dst)
             (nan_src @ [(0, 0), (0, 0), (0, 0)]) = Inr nan_W"
    using a unfolding lg .
  have step: "TPSWarper_warp nan_lib (Loaded 1 1) nan_src fl_square_dst (1, 1) =
    (case np_linalg_solve nan_lib (tps_L fl_log fl_square_dst) (nan_src @ [(0, 0), (0, 0), (0, 0)]) of
       Inl e \<Rightarrow> (if e = LinAlgError then Inr None else Inl e)
     | Inr W \<Rightarrow>
         (case cv_remap nan_lib (Loaded 1 1) (fst (tps_dense_map fl_log W fl_square_dst (1, 1)))
                 (snd (tps_dense_map fl_log W fl_square_dst (1, 1))) INTER_CUBIC of
            Inl e \<Rightarrow> Inl e
          | Inr out \<Rightarrow> Inr (Some out)))"
    using TPSWarper_warp_unfold [OF nan_V, of nan_lib "Loaded 1 1" "(1, 1)"] unfolding lg .
  have c: "TPSWarper_warp nan_lib (Loaded 1 1) nan_src fl_square_dst (1, 1)
     = Inr (Some (Remapped (Loaded 1 1) [[NaN]] [[Fin 0]] INTER_CUBIC))"
    unfolding step a' sum.case nan_dense_map fst_conv snd_conv
    by (simp add: nan_lib_def sym_lib_def)
  from a b c show ?thesis by blast
qed


section \<open>What the failure of the solve depends on\<close>

text \<open>
  Claim C10, as amended. \<open>L\<close> is built from \<open>dst_pts\<close> alone (\<open>tps_L\<close> takes nothing
  else). So for two calls with the same \<open>dst_pts\<close> whose source points can be assigned
  to \<open>V[:N, :]\<close>, so that both reach the solve, with any source images and output
  sizes, and a solver whose \<open>LinAlgError\<close> depends on its matrix only (LAPACK reports a
  zero pivot of the factorisation of \<open>L\<close>), either both calls return the failure
  result of the solve or neither does.
\<close>

theorem tps_failure_depends_on_dst:
  fixes l :: "('a::{monoid_add,numeral,minus,times,inverse,ord}, 'img) lib"
  assumes V: "tps_V (length dst_pts) src_pts = Inr V"
    and V': "tps_V (length dst_pts) src_pts' = Inr V'"
    and solver: "\<forall>L V V'. (np_linalg_solve l L V = Inl LinAlgError)
                          = (np_linalg_solve l L V' = Inl LinAlgError)"
  shows "(TPSWarper_warp l img_src src_pts dst_pts output_size = Inr None)
       = (TPSWarper_warp l img_src' src_pts' dst_pts output_size' = Inr None)"
proof -
  have "(TPSWarper_warp l img_src src_pts dst_pts output_size = Inr None)
        = (np_linalg_solve l (tps_L (np_log l) dst_pts) V = Inl LinAlgError)"
    using V by (simp add: TPSWarper_warp_None)
  also have "\<dots> = (np_linalg_solve l (tps_L (np_log l) dst_pts) V' = Inl LinAlgError)"
    using solver by blast
  also have "\<dots> = (TPSWarper_warp l img_src' src_pts' dst_pts output_size' = Inr None)"
    using V' by (simp add: TPSWarper_warp_None)
  finally show ?thesis .
qed

text \<open>Claim C10 at four collinear control points and two different sets of targets.\<close>

theorem tps_failure_depends_on_dst_witness:
  "tps_V (length collinear_dst) square_dst = Inr (square_dst @ [(0, 0), (0, 0), (0, 0)]) \<and>
   tps_V (length collinear_dst) bent_src = Inr (bent_src @ [(0, 0), (0, 0), (0, 0)]) \<and>
   (TPSWarper_warp (sym_lib ln singular_solver None) (Loaded 4 4) square_dst collinear_dst (4, 4)
      = Inr None)
   = (TPSWarper_warp (sym_lib ln singular_solver None) (Loaded 9 9) bent_src collinear_dst (2, 3)
      = Inr None)"
proof -
  let ?l = "sym_lib ln singular_solver None :: (real, real image) lib"
  have V1: "tps_V (length collinear_dst) square_dst = Inr (square_dst @ [(0, 0), (0, 0), (0, 0)])"
    by (rule tps_V_same_length) (simp add: square_dst_def collinear_dst_def)
  have V2: "tps_V (length collinear_dst) bent_src = Inr (bent_src @ [(0, 0), (0, 0), (0, 0)])"
    by (rule tps_V_same_length) (simp add: bent_src_def collinear_dst_def)
  have s: "\<forall>L V V'. (np_linalg_solve ?l L V = Inl LinAlgError)
                     = (np_linalg_solve ?l L V' = Inl LinAlgError)"
    by (simp add: sym_lib_def singular_solver_def)
  show ?thesis
    using V1 V2 tps_failure_depends_on_dst [OF V1 V2 s, of "Loaded 4 4" "(4, 4)" "Loaded 9 9" "(2, 3)"]
    by blast
qed

text \<open>
  Claim C10 as stated fails. With the same four collinear control points, the call
  with four source points returns the failure result of the solve, and the call with
  five source points raises \<open>ValueError\<close> before the solve.
\<close>

theorem tps_failure_src_counterexample:
  "TPSWarper_warp (sym_lib ln singular_solver None) (Loaded 4 4) square_dst collinear_dst (4, 4)
     = Inr None \<and>
   TPSWarper_warp (sym_lib ln singular_solver None) (Loaded 4 4) five_src collinear_dst (4, 4)
     = Inl ValueError"
proof -
  have V: "tps_V (length collinear_dst) square_dst = Inr (square_dst @ [(0, 0), (0, 0), (0, 0)])"
    by (rule tps_V_same_length) (simp add: square_dst_def collinear_dst_def)
  have a: "TPSWarper_warp (sym_lib ln singular_solver None) (Loaded 4 4) square_dst
             collinear_dst (4, 4) = Inr None"
    unfolding TPSWarper_warp_None V by (simp add: sym_lib_def singular_solver_def)
  have b: "TPSWarper_warp (sym_lib ln singular_solver None) (Loaded 4 4) five_src
             collinear_dst (4, 4) = Inl ValueError"
    by (simp add: TPSWarper_warp_def Let_def tps_V_def five_src_def collinear_dst_def)
  from a b show ?thesis by blast
qed

section \<open>Interpolation\<close>

text \<open>
  Claim C7 at a homography warp. \<open>TPSWarper.warp\<close> passes \<open>cv2.INTER_CUBIC\<close> to
  \<open>cv2.remap\<close> (see \<open>TPSWarper_warp_unfold\<close>); \<open>HomographyWarper.warp\<close> passes no flag to
  \<open>cv2.warpPerspective\<close>, whose default is bilinear.
\<close>

theorem homography_resamples_linear:
  "HomographyWarper_warp (sym_lib ln singular_solver (Some identity_H)) (Loaded 2 2)
     square_dst square_dst (2, 2)
   = Inr (Some (Perspective (Loaded 2 2) identity_H (2, 2) INTER_LINEAR))"
  by (simp add: HomographyWarper_warp_def sym_lib_def)


section \<open>Identity\<close>













section \<open>Aggregation\<close>

lemma fold_append_indexed:
  assumes "n \<le> length xs" "n \<le> length ys"
  shows "fold (\<lambda>i (a, b). (a @ f (xs ! i), b @ g (ys ! i))) [0..<n] (a0, b0) =
         (a0 @ concat (map f (take n xs)), b0 @ concat (map g (take n ys)))"
  using assms
proof (induction n)
  case 0
  show ?case by simp
next
  case (Suc n)
  then have "n < length xs" "n < length ys" by simp_all
  then show ?case
    using Suc by (simp add: take_Suc_conv_app_nth)
qed

lemma fold_corners:
  "fold (\<lambda>j (a, b). (a @ [corner f1 j], b @ [corner f2 j])) [0..<4] acc =
   (case acc of (a, b) \<Rightarrow>
      (a @ [corner f1 0, corner f1 1, corner f1 2, corner f1 3],
       b @ [corner f2 0, corner f2 1, corner f2 2, corner f2 3]))"
  by (cases acc) (simp add: upt_4)

lemma collect_points_eq:
  "collect_points p1 p2 =
     (let n_lines = min (length (pane_lines p1)) (length (pane_lines p2));
          n_faces = min (length (pane_faces p1)) (length (pane_faces p2))
      in (flatten_spec (length (pane_points p1)) n_lines n_faces p1,
          flatten_spec (length (pane_points p2)) n_lines n_faces p2))"
proof -
  let ?nl = "min (length (pane_lines p1)) (length (pane_lines p2))"
  let ?nf = "min (length (pane_faces p1)) (length (pane_faces p2))"
  have lines: "fold (\<lambda>i (pts1, pts2).
                    (pts1 @ [fst (pane_lines p1 ! i), snd (pane_lines p1 ! i)],
                     pts2 @ [fst (pane_lines p2 ! i), snd (pane_lines p2 ! i)]))
              [0..<?nl] (pane_points p1, pane_points p2)
        = (pane_points p1 @ concat (map (\<lambda>ln. [fst ln, snd ln]) (take ?nl (pane_lines p1))),
           pane_points p2 @ concat (map (\<lambda>ln. [fst ln, snd ln]) (take ?nl (pane_lines p2))))"
    using fold_append_indexed [of ?nl "pane_lines p1" "pane_lines p2"
        "\<lambda>ln. [fst ln, snd ln]" "\<lambda>ln. [fst ln, snd ln]"]
    by simp
  have faces: "fold (\<lambda>i acc.
                 fold (\<lambda>j (pts1, pts2).
                         (pts1 @ [corner (pane_faces p1 ! i) j],
                          pts2 @ [corner (pane_faces p2 ! i) j]))
                   [0..<4] acc)
           [0..<?nf] (a0, b0)
        = (a0 @ concat (map (\<lambda>f. [corner f 0, corner f 1, corner f 2, corner f 3])
                          (take ?nf (pane_faces p1))),
           b0 @ concat (map (\<lambda>f. [corner f 0, corner f 1, corner f 2, corner f 3])
                          (take ?nf (pane_faces p2))))" for a0 b0
    using fold_append_indexed [of ?nf "pane_faces p1" "pane_faces p2"
        "\<lambda>f. [corner f 0, corner f 1, corner f 2, corner f 3]"
        "\<lambda>f. [corner f 0, corner f 1, corner f 2, corner f 3]" a0 b0]
    by (simp add: fold_corners)
  show ?thesis
    unfolding collect_points_def Let_def lines faces
    by (simp add: flatten_spec_def)
qed

lemma aggregate_same_length:
  "length (fst (aggregate p1 p2)) = length (snd (aggregate p1 p2))"
  by (simp add: aggregate_def Let_def)

lemma aggregate_length:
  "length (fst (aggregate p1 p2)) =
   min (length (fst (collect_points p1 p2))) (length (snd (collect_points p1 p2)))"
  by (simp add: aggregate_def Let_def)

lemma aggregate_eq_spec:
  assumes "length (pane_points p1) = length (pane_points p2)"
  shows "aggregate p1 p2 = aggregate_spec p1 p2"
proof -
  have "length (flatten_spec a b c p1) = length (flatten_spec a b c p2)"
    if "a \<le> length (pane_points p1)" "b \<le> length (pane_lines p1)" "b \<le> length (pane_lines p2)"
       "c \<le> length (pane_faces p1)" "c \<le> length (pane_faces p2)" for a b c
    using that assms by (simp add: flatten_spec_def length_concat comp_def sum_list_triv)
  then show ?thesis
    using assms by (simp add: aggregate_def aggregate_spec_def collect_points_eq Let_def)
qed

text \<open>
  Claim C3 at annotations with unequal free-point counts. \<open>run_warp\<close> appends the line
  endpoints to all the free points of each pane and truncates the two lists only at
  the end, so the third free point of the first image is paired with the line start
  of the second, and the line start of the first with the line end of the second. The
  aggregation the claim words pairs line start with line start. (\<open>aggregate_eq_spec\<close>:
  with equal free-point counts the two agree; \<open>aggregate_same_length\<close>: the two lists
  always have the same length.)
\<close>

theorem aggregate_misaligned:
  "aggregate uneven_pane1 uneven_pane2 =
     ([(11, 11), (21, 21), (41, 41), (51, 51)], [(10, 10), (20, 20), (30, 30), (40, 40)]) \<and>
   aggregate_spec uneven_pane1 uneven_pane2 =
     ([(11, 11), (21, 21), (41, 41), (51, 51)], [(10, 10), (20, 20), (40, 40), (50, 50)])"
  by (simp add: aggregate_def aggregate_spec_def collect_points_eq flatten_spec_def Let_def
      uneven_pane1_def uneven_pane2_def)

section \<open>Fewer than four pairs\<close>

text \<open>
  Claim C5. With fewer than four aligned pairs \<open>run_warp\<close> calls no warper: it returns
  without raising, records no call, leaves \<open>warped_img2\<close> as it was and disables the save
  button. It reports the state instead: the comparison view is set to show no warped
  image, so that \<open>ComparisonSlider.paintEvent\<close> draws "Pending Alignment (Need 4+
  points)", and with both images loaded the status bar shows "Select at least 4
  constraints" with the two counts.
\<close>

theorem run_warp_below_four:
  fixes l :: "('a::{monoid_add,numeral,minus,times,inverse,ord}, 'img) lib"
  assumes "length (fst (aggregate (pane1 s) (pane2 s))) < 4"
  shows "\<exists>s'. run_warp l s = Inr s' \<and>
           warper_calls s' = warper_calls s \<and>
           warped_img2 s' = warped_img2 s \<and>
           \<not> btn_save_enabled s' \<and>
           comparison_view s' = (cv_img1 s, None) \<and>
           ComparisonSlider_paintEvent (comparison_view s') = Pending_Alignment_Need_4_points \<and>
           status_log s' =
             (if cv_img1 s \<noteq> None \<and> cv_img2 s \<noteq> None
              then status_log s @
                     [Select_at_least_4 (length (fst (collect_points (pane1 s) (pane2 s))))
                        (length (snd (collect_points (pane1 s) (pane2 s))))]
              else status_log s)"
proof -
  have g: "\<not> (min (length (fst (collect_points (pane1 s) (pane2 s))))
                  (length (snd (collect_points (pane1 s) (pane2 s)))) \<ge> 4
              \<and> cv_img1 s \<noteq> None \<and> cv_img2 s \<noteq> None)"
    using assms unfolding aggregate_length by linarith
  show ?thesis
    unfolding run_warp_def Let_def if_not_P [OF g]
    by (simp add: ComparisonSlider_paintEvent_def)
qed

text \<open>
  Claim C5 with both images loaded and three free points on each, and right after
  start with no image and no annotation.
\<close>

theorem run_warp_below_four_witness:
  "length (fst (aggregate (pane1 three_points_app) (pane2 three_points_app))) < 4 \<and>
   (\<exists>s'. run_warp bent_lib three_points_app = Inr s' \<and>
         warper_calls s' = [] \<and> \<not> btn_save_enabled s' \<and>
         comparison_view s' = (Some (Loaded 4 4), None) \<and>
         ComparisonSlider_paintEvent (comparison_view s') = Pending_Alignment_Need_4_points \<and>
         status_log s' = [Select_at_least_4 3 3]) \<and>
   length (fst (aggregate (pane1 start_app) (pane2 start_app))) < 4 \<and>
   (\<exists>s'. run_warp bent_lib start_app = Inr s' \<and>
         warper_calls s' = [] \<and>
         ComparisonSlider_paintEvent (comparison_view s') = Pending_Alignment_Need_4_points)"
proof -
  have c: "collect_points (pane1 three_points_app) (pane2 three_points_app) =
           ([(0, 0), (1, 0), (1, 1)], [(0, 0), (2, 0), (2, 2)])"
    by (simp add: collect_points_eq flatten_spec_def three_points_app_def start_app_def
        empty_pane_def)
  have h: "length (fst (aggregate (pane1 three_points_app) (pane2 three_points_app))) < 4"
    unfolding aggregate_length c by simp
  obtain s' where r: "run_warp bent_lib three_points_app = Inr s'"
    and w: "warper_calls s' = warper_calls three_points_app"
    and b: "\<not> btn_save_enabled s'"
    and v: "comparison_view s' = (cv_img1 three_points_app, None)"
    and p: "ComparisonSlider_paintEvent (comparison_view s') = Pending_Alignment_Need_4_points"
    and t: "status_log s' =
             (if cv_img1 three_points_app \<noteq> None \<and> cv_img2 three_points_app \<noteq> None
              then status_log three_points_app @
                     [Select_at_least_4
                        (length (fst (collect_points (pane1 three_points_app) (pane2 three_points_app))))
                        (length (snd (collect_points (pane1 three_points_app) (pane2 three_points_app))))]
              else status_log three_points_app)"
    using run_warp_below_four [OF h, of bent_lib] by blast
  have w': "warper_calls s' = []"
    using w by (simp add: three_points_app_def start_app_def)
  have v': "comparison_view s' = (Some (Loaded 4 4), None)"
    using v by (simp add: three_points_app_def start_app_def)
  have t': "status_log s' = [Select_at_least_4 3 3]"
    unfolding t c by (simp add: three_points_app_def start_app_def)
  have first: "\<exists>s'. run_warp bent_lib three_points_app = Inr s' \<and>
         warper_calls s' = [] \<and> \<not> btn_save_enabled s' \<and>
         comparison_view s' = (Some (Loaded 4 4), None) \<and>
         ComparisonSlider_paintEvent (comparison_view s') = Pending_Alignment_Need_4_points \<and>
         status_log s' = [Select_at_least_4 3 3]"
    using r w' b v' p t' by blast
  have h0: "length (fst (aggregate (pane1 start_app) (pane2 start_app))) < 4"
    by (simp add: aggregate_length collect_points_eq flatten_spec_def start_app_def empty_pane_def)
  obtain s0 where r0: "run_warp bent_lib start_app = Inr s0"
    and w0: "warper_calls s0 = warper_calls start_app"
    and p0: "ComparisonSlider_paintEvent (comparison_view s0) = Pending_Alignment_Need_4_points"
    using run_warp_below_four [OF h0, of bent_lib] by blast
  have w0': "warper_calls s0 = []"
    using w0 by (simp add: start_app_def)
  have second: "\<exists>s'. run_warp bent_lib start_app = Inr s' \<and>
         warper_calls s' = [] \<and>
         ComparisonSlider_paintEvent (comparison_view s') = Pending_Alignment_Need_4_points"
    using r0 w0' p0 by blast
  from h first h0 second show ?thesis by blast
qed

end
